theory Spec2Isabelle
  imports Main
begin

section \<open>Wire DSL preview and export: a shallow embedding\<close>

text \<open>
  The development embeds two classes of the extension:
  \<^item> \<^verbatim>\<open>ExportManager\<close> (\<^verbatim>\<open>services/exportManager\<close>, the revision with
    \<^verbatim>\<open>sanitizeScreenName\<close>, kept in \<^verbatim>\<open>src/README.md\<close> from line 814 to line 1182): the
    per-format export of an IR to files;
  \<^item> \<^verbatim>\<open>WirePreviewPanel\<close> (\<^verbatim>\<open>src/src/webviewPanelProvider.ts\<close> from line 469 on, the
    revision with \<^verbatim>\<open>exportAs\<close>): the preview session, its render pass and its debounce
    timer.

  JavaScript strings are modelled as \<^typ>\<open>string\<close>, that is as sequences of code units
  below 256. Thrown \<^verbatim>\<open>Error\<close> values are modelled by their message; a call that may throw
  returns a sum whose left injection carries the message. The functions of
  \<^verbatim>\<open>@wire-dsl/core\<close> are parameters of the model: the module is taken as resolved where
  the export code requires it, and every call into it may fail.
\<close>

subsection \<open>The data read from the IR\<close>

datatype theme = light | dark

record viewport =
  width :: int
  height :: int

record screen =
  name :: string
  viewport :: "viewport option"

text \<open>
  The IR is opaque apart from \<^verbatim>\<open>ir.project.screens\<close>. The field is optional in the source
  (\<^verbatim>\<open>ir.project.screens || []\<close>), hence the option.
\<close>

record ir =
  screens :: "screen list option"

record render_options =
  opt_width :: int
  opt_height :: int
  opt_theme :: theme
  includeLabels :: bool
  screenName :: string

datatype page = Page (page_svg: string) (page_width: int) (page_height: int) (page_name: string)

text \<open>One written file: what was handed to the exporter of the core library, and where.\<close>

datatype artifact =
    SvgFile (artifact_path: string) (artifact_svg: string)
  | PngFile (artifact_path: string) (artifact_svg: string) int int
  | PdfFile (artifact_path: string) "page list"

text \<open>
  The exporting half of \<^verbatim>\<open>@wire-dsl/core\<close>. \<^verbatim>\<open>new SVGRenderer(ir, layout, opts).render()\<close>
  returns the markup or throws; each exporter writes its file or throws (\<open>Some\<close> message).
\<close>

record 'l core_exporters =
  SVGRenderer_render :: "ir \<Rightarrow> 'l \<Rightarrow> render_options \<Rightarrow> string + string"
  core_exportSVG :: "string \<Rightarrow> string \<Rightarrow> string option"
  core_exportPNG :: "string \<Rightarrow> string \<Rightarrow> int \<Rightarrow> int \<Rightarrow> string option"
  core_exportMultipagePDF :: "page list \<Rightarrow> string \<Rightarrow> string option"

subsection \<open>\<^verbatim>\<open>sanitizeScreenName\<close>\<close>

text \<open>\<^verbatim>\<open>String.prototype.toLowerCase\<close> on code units below 256.\<close>

definition toLowerCase_char :: "char \<Rightarrow> char" where
  "toLowerCase_char c =
     (let n = (of_char c :: nat)
      in if (65 \<le> n \<and> n \<le> 90) \<or> (192 \<le> n \<and> n \<le> 222 \<and> n \<noteq> 215)
         then char_of (n + 32) else c)"

definition toLowerCase :: "string \<Rightarrow> string" where
  "toLowerCase s = map toLowerCase_char s"

text \<open>The class \<^verbatim>\<open>\s\<close> on code units below 256: TAB, LF, VT, FF, CR, space, NBSP.\<close>

definition is_whitespace :: "char \<Rightarrow> bool" where
  "is_whitespace c = ((of_char c :: nat) \<in> {9, 10, 11, 12, 13, 32, 160})"

text \<open>\<^verbatim>\<open>.replace(/\s+/g, '-')\<close>: every maximal run of whitespace becomes one hyphen.\<close>

function replace_whitespace_runs :: "string \<Rightarrow> string" where
  "replace_whitespace_runs [] = []"
| "replace_whitespace_runs (c # cs) =
     (if is_whitespace c then CHR ''-'' # replace_whitespace_runs (dropWhile is_whitespace cs)
      else c # replace_whitespace_runs cs)"
  by pat_completeness auto
termination
  by (relation "measure length") (auto simp: less_Suc_eq_le length_dropWhile_le)

declare replace_whitespace_runs.simps [simp del]

definition is_name_char :: "char \<Rightarrow> bool" where
  "is_name_char c =
     (let n = (of_char c :: nat)
      in (97 \<le> n \<and> n \<le> 122) \<or> (48 \<le> n \<and> n \<le> 57) \<or> n = 45)"

text \<open>\<^verbatim>\<open>.replace(/[^a-z0-9-]/g, '')\<close>.\<close>

definition remove_other_chars :: "string \<Rightarrow> string" where
  "remove_other_chars s = filter is_name_char s"

definition sanitizeScreenName :: "string \<Rightarrow> string" where
  "sanitizeScreenName nm = remove_other_chars (replace_whitespace_runs (toLowerCase nm))"

subsection \<open>The \<^verbatim>\<open>path\<close> functions used by the export (POSIX flavour of Node's module)\<close>

definition is_slash :: "char \<Rightarrow> bool" where
  "is_slash c = (c = CHR ''/'')"

text \<open>
  \<^verbatim>\<open>path.dirname\<close>: trailing separators are skipped, then the last separator at an index
  of at least 1 ends the directory.
\<close>

definition path_dirname :: "string \<Rightarrow> string" where
  "path_dirname p =
     (if p = [] then ''.''
      else
        let hasRoot = is_slash (hd p);
            r = dropWhile (\<lambda>c. \<not> is_slash c) (dropWhile is_slash (rev (tl p)))
        in if r = [] then (if hasRoot then ''/'' else ''.'')
           else if hasRoot \<and> length r = 1 then ''//''
           else take (length r) p)"

definition ends_with :: "string \<Rightarrow> string \<Rightarrow> bool" where
  "ends_with s suffix =
     (length suffix \<le> length s \<and> drop (length s - length suffix) s = suffix)"

text \<open>
  \<^verbatim>\<open>path.basename(p, suffix)\<close>: the last segment of the path with the suffix removed when the
  segment ends with it and is not the suffix itself.
\<close>

definition path_basename :: "string \<Rightarrow> string \<Rightarrow> string" where
  "path_basename p suffix =
     (let r1 = dropWhile is_slash (rev p);
          seg = rev (takeWhile (\<lambda>c. \<not> is_slash c) r1);
          start = length r1 - length seg
      in if suffix \<noteq> [] \<and> length suffix \<le> length p then
           (if suffix = p then []
            else if r1 = [] then p
            else if ends_with seg suffix then
              (if seg = suffix then seg else take (length seg - length suffix) seg)
            else if ends_with suffix seg then drop start p
            else seg)
         else seg)"

fun split_slash :: "string \<Rightarrow> string \<Rightarrow> string list" where
  "split_slash acc [] = [rev acc]"
| "split_slash acc (c # cs) =
     (if is_slash c then rev acc # split_slash [] cs else split_slash (c # acc) cs)"

text \<open>
  The segment walk of \<^verbatim>\<open>normalizeString\<close>: empty and \<^verbatim>\<open>.\<close> segments vanish, \<^verbatim>\<open>..\<close> removes
  the segment before it, or is kept when the path is relative and nothing is left to
  remove. The result stack \<open>res\<close> is kept reversed.
\<close>

fun normalize_segments :: "bool \<Rightarrow> string list \<Rightarrow> string list \<Rightarrow> string list" where
  "normalize_segments allowAboveRoot res [] = rev res"
| "normalize_segments allowAboveRoot res (s # ss) =
     (if s = [] \<or> s = ''.'' then normalize_segments allowAboveRoot res ss
      else if s = ''..'' then
        (case res of
           [] \<Rightarrow> normalize_segments allowAboveRoot (if allowAboveRoot then [s] else []) ss
         | t # ts \<Rightarrow>
             if t = ''..'' then
               normalize_segments allowAboveRoot (if allowAboveRoot then s # res else res) ss
             else normalize_segments allowAboveRoot ts ss)
      else normalize_segments allowAboveRoot (s # res) ss)"

fun join_slash :: "string list \<Rightarrow> string" where
  "join_slash [] = []"
| "join_slash [s] = s"
| "join_slash (s # t # ss) = s @ ''/'' @ join_slash (t # ss)"

definition path_normalize :: "string \<Rightarrow> string" where
  "path_normalize p =
     (if p = [] then ''.''
      else
        let isAbsolute = is_slash (hd p);
            trailingSeparator = is_slash (last p);
            q = join_slash (normalize_segments (\<not> isAbsolute) [] (split_slash [] p))
        in if q = [] then (if isAbsolute then ''/'' else if trailingSeparator then ''./'' else ''.'')
           else (if isAbsolute then ''/'' else []) @ q @ (if trailingSeparator then ''/'' else []))"

text \<open>\<^verbatim>\<open>path.join(a, b)\<close>: the non-empty arguments joined by a separator, then normalised.\<close>

definition path_join :: "string \<Rightarrow> string \<Rightarrow> string" where
  "path_join a b =
     (if a = [] \<and> b = [] then ''.''
      else if a = [] then path_normalize b
      else if b = [] then path_normalize a
      else path_normalize (a @ ''/'' @ b))"

subsection \<open>\<^verbatim>\<open>ExportManager\<close>\<close>

datatype format_id = Svg | Pdf | Png

record ExportFormat =
  fmt_id :: format_id
  label :: string
  ext :: string

definition getAvailableFormats :: "ExportFormat list" where
  "getAvailableFormats =
     [\<lparr>fmt_id = Svg, label = ''SVG (Vector)'', ext = ''.svg''\<rparr>,
      \<lparr>fmt_id = Pdf, label = ''PDF (Document)'', ext = ''.pdf''\<rparr>,
      \<lparr>fmt_id = Png, label = ''PNG (Image)'', ext = ''.png''\<rparr>]"

text \<open>\<^verbatim>\<open>ir.project.screens || []\<close>\<close>

definition screens_of :: "ir \<Rightarrow> screen list" where
  "screens_of i = (case screens i of None \<Rightarrow> [] | Some scs \<Rightarrow> scs)"

definition default_viewport :: viewport where
  "default_viewport = \<lparr>width = 1280, height = 720\<rparr>"

text \<open>\<^verbatim>\<open>screens[0]?.viewport ?? { width: 1280, height: 720 }\<close>\<close>

definition baseViewport :: "screen list \<Rightarrow> viewport" where
  "baseViewport scs =
     (case scs of
        [] \<Rightarrow> default_viewport
      | s # _ \<Rightarrow> (case viewport s of None \<Rightarrow> default_viewport | Some v \<Rightarrow> v))"

text \<open>\<^verbatim>\<open>screen.viewport ?? baseViewport\<close>\<close>

definition viewport_of :: "viewport \<Rightarrow> screen \<Rightarrow> viewport" where
  "viewport_of base s = (case viewport s of None \<Rightarrow> base | Some v \<Rightarrow> v)"

text \<open>The options every export hands to \<^verbatim>\<open>new SVGRenderer\<close> for one screen.\<close>

definition renderer_options :: "viewport \<Rightarrow> theme \<Rightarrow> screen \<Rightarrow> render_options" where
  "renderer_options vp th s =
     \<lparr>opt_width = width vp, opt_height = height vp, opt_theme = th,
      includeLabels = True, screenName = name s\<rparr>"

text \<open>
  The result of an export: what the call returns (\<open>Inl\<close> the message of the thrown error) and
  the files written before it returned, in the order of writing.
\<close>

type_synonym export_result = "(string + unit) \<times> artifact list"

definition rethrow :: "string \<Rightarrow> export_result \<Rightarrow> export_result" where
  "rethrow prefix r =
     (case r of (Inl e, written) \<Rightarrow> (Inl (prefix @ e), written) | (Inr u, written) \<Rightarrow> (Inr u, written))"

text \<open>The loop \<^verbatim>\<open>for (const screen of screens)\<close> of \<^verbatim>\<open>exportSVG\<close>.\<close>

fun exportSVG_screens ::
  "'l core_exporters \<Rightarrow> ir \<Rightarrow> 'l \<Rightarrow> theme \<Rightarrow> string \<Rightarrow> string \<Rightarrow> viewport \<Rightarrow> screen list
     \<Rightarrow> export_result" where
  "exportSVG_screens core i layout th dirPath baseName base [] = (Inr (), [])"
| "exportSVG_screens core i layout th dirPath baseName base (s # rest) =
     (case SVGRenderer_render core i layout (renderer_options (viewport_of base s) th s) of
        Inl e \<Rightarrow> (Inl e, [])
      | Inr svg \<Rightarrow>
          (let sanitizedName = sanitizeScreenName (name s);
               screenFilePath = path_join dirPath (baseName @ ''-'' @ sanitizedName @ ''.svg'')
           in case core_exportSVG core svg screenFilePath of
                Some e \<Rightarrow> (Inl e, [])
              | None \<Rightarrow>
                  (case exportSVG_screens core i layout th dirPath baseName base rest of
                     (r, written) \<Rightarrow> (r, SvgFile screenFilePath svg # written))))"

definition exportSVG ::
  "'l core_exporters \<Rightarrow> ir \<Rightarrow> 'l \<Rightarrow> theme \<Rightarrow> string \<Rightarrow> export_result" where
  "exportSVG core i layout th filePath =
     rethrow ''SVG export failed: ''
       (let scs = screens_of i
        in if length scs = 0 then (Inl ''No screens found in project'', [])
           else
             let base = baseViewport scs
             in if length scs = 1 then
                  (let s = hd scs
                   in case SVGRenderer_render core i layout
                             (renderer_options (viewport_of base s) th s) of
                        Inl e \<Rightarrow> (Inl e, [])
                      | Inr svg \<Rightarrow>
                          (case core_exportSVG core svg filePath of
                             Some e \<Rightarrow> (Inl e, [])
                           | None \<Rightarrow> (Inr (), [SvgFile filePath svg])))
                else exportSVG_screens core i layout th (path_dirname filePath)
                       (path_basename filePath ''.svg'') base scs)"

text \<open>\<^verbatim>\<open>screens.map(...)\<close> of \<^verbatim>\<open>exportPDF\<close>: the first render that throws ends the map.\<close>

fun render_pages ::
  "'l core_exporters \<Rightarrow> ir \<Rightarrow> 'l \<Rightarrow> theme \<Rightarrow> viewport \<Rightarrow> screen list \<Rightarrow> string + page list" where
  "render_pages core i layout th base [] = Inr []"
| "render_pages core i layout th base (s # rest) =
     (let vp = viewport_of base s
      in case SVGRenderer_render core i layout (renderer_options vp th s) of
           Inl e \<Rightarrow> Inl e
         | Inr svg \<Rightarrow>
             (case render_pages core i layout th base rest of
                Inl e \<Rightarrow> Inl e
              | Inr ps \<Rightarrow> Inr (Page svg (width vp) (height vp) (name s) # ps)))"

text \<open>
  \<^verbatim>\<open>exportPDF\<close>. The font directory of pdfkit, which the source resolves between the renders
  and the export, is taken as resolved.
\<close>

definition exportPDF ::
  "'l core_exporters \<Rightarrow> ir \<Rightarrow> 'l \<Rightarrow> theme \<Rightarrow> string \<Rightarrow> export_result" where
  "exportPDF core i layout th filePath =
     rethrow ''PDF export failed: ''
       (let scs = screens_of i
        in if length scs = 0 then (Inl ''No screens found in project'', [])
           else
             let base = baseViewport scs
             in case render_pages core i layout th base scs of
                  Inl e \<Rightarrow> (Inl e, [])
                | Inr svgs \<Rightarrow>
                    (case core_exportMultipagePDF core svgs filePath of
                       Some e \<Rightarrow> (Inl e, [])
                     | None \<Rightarrow> (Inr (), [PdfFile filePath svgs])))"

text \<open>The loop \<^verbatim>\<open>for (const screen of screens)\<close> of \<^verbatim>\<open>exportPNG\<close>.\<close>

fun exportPNG_screens ::
  "'l core_exporters \<Rightarrow> ir \<Rightarrow> 'l \<Rightarrow> theme \<Rightarrow> string \<Rightarrow> string \<Rightarrow> viewport \<Rightarrow> screen list
     \<Rightarrow> export_result" where
  "exportPNG_screens core i layout th dirPath baseName base [] = (Inr (), [])"
| "exportPNG_screens core i layout th dirPath baseName base (s # rest) =
     (let vp = viewport_of base s
      in case SVGRenderer_render core i layout (renderer_options vp th s) of
           Inl e \<Rightarrow> (Inl e, [])
         | Inr svg \<Rightarrow>
             (let sanitizedName = sanitizeScreenName (name s);
                  screenFilePath = path_join dirPath (baseName @ ''-'' @ sanitizedName @ ''.png'')
              in case core_exportPNG core svg screenFilePath (width vp) (height vp) of
                   Some e \<Rightarrow> (Inl e, [])
                 | None \<Rightarrow>
                     (case exportPNG_screens core i layout th dirPath baseName base rest of
                        (r, written) \<Rightarrow>
                          (r, PngFile screenFilePath svg (width vp) (height vp) # written))))"

definition exportPNG ::
  "'l core_exporters \<Rightarrow> ir \<Rightarrow> 'l \<Rightarrow> theme \<Rightarrow> string \<Rightarrow> export_result" where
  "exportPNG core i layout th filePath =
     rethrow ''PNG export failed: ''
       (let scs = screens_of i
        in if length scs = 0 then (Inl ''No screens found in project'', [])
           else
             let base = baseViewport scs
             in if length scs = 1 then
                  (let s = hd scs; vp = viewport_of base s
                   in case SVGRenderer_render core i layout (renderer_options vp th s) of
                        Inl e \<Rightarrow> (Inl e, [])
                      | Inr svg \<Rightarrow>
                          (case core_exportPNG core svg filePath (width vp) (height vp) of
                             Some e \<Rightarrow> (Inl e, [])
                           | None \<Rightarrow> (Inr (), [PngFile filePath svg (width vp) (height vp)])))
                else exportPNG_screens core i layout th (path_dirname filePath)
                       (path_basename filePath ''.png'') base scs)"

text \<open>
  \<^verbatim>\<open>exportToFormat\<close>. The \<^verbatim>\<open>default\<close> branch of the source's switch cannot be reached with a
  format of type \<^verbatim>\<open>'svg' | 'pdf' | 'png'\<close>.
\<close>

fun exportToFormat ::
  "'l core_exporters \<Rightarrow> format_id \<Rightarrow> ir \<Rightarrow> 'l \<Rightarrow> theme \<Rightarrow> string \<Rightarrow> export_result" where
  "exportToFormat core Svg i layout th filePath = exportSVG core i layout th filePath"
| "exportToFormat core Pdf i layout th filePath = exportPDF core i layout th filePath"
| "exportToFormat core Png i layout th filePath = exportPNG core i layout th filePath"

text \<open>
  \<^verbatim>\<open>showExportDialog\<close>. The two prompts are inputs: \<open>selection\<close> is the format picked
  (\<open>None\<close> when the pick is cancelled) and \<open>fileUri\<close> the path chosen in the save dialog
  (the default path the dialog offers, built from \<open>currentFileName\<close>, is not modelled).
  The result is the notification shown, the files written and the remembered directory.
\<close>

datatype notification = ExportedTo string | ErrorMessage string

definition showExportDialog ::
  "'l core_exporters \<Rightarrow> string option \<Rightarrow> ExportFormat option \<Rightarrow> string option
     \<Rightarrow> string \<Rightarrow> ir \<Rightarrow> 'l \<Rightarrow> theme \<Rightarrow> notification option \<times> artifact list \<times> string option" where
  "showExportDialog core lastDir selection fileUri currentFileName i layout th =
     (case selection of
        None \<Rightarrow> (None, [], lastDir)
      | Some selectedFormat \<Rightarrow>
          (case fileUri of
             None \<Rightarrow> (None, [], lastDir)
           | Some filePath \<Rightarrow>
               (case exportToFormat core (fmt_id selectedFormat) i layout th filePath of
                  (Inr u, written) \<Rightarrow>
                    (Some (ExportedTo (path_basename filePath [])), written,
                     Some (path_dirname filePath))
                | (Inl errorMessage, written) \<Rightarrow>
                    (Some (ErrorMessage (''Export failed: '' @ errorMessage)), written, lastDir))))"

text \<open>
  The files a sequence of writes leaves in the file system: a write to a path replaces the
  file that an earlier write put there.
\<close>

definition write_file :: "artifact \<Rightarrow> artifact list \<Rightarrow> artifact list" where
  "write_file a fs = filter (\<lambda>b. artifact_path b \<noteq> artifact_path a) fs @ [a]"

fun files_after :: "artifact list \<Rightarrow> artifact list \<Rightarrow> artifact list" where
  "files_after fs [] = fs"
| "files_after fs (a # written) = files_after (write_file a fs) written"

text \<open>The extension each format's export strips from and appends to a per-screen file.\<close>

fun ext_of :: "format_id \<Rightarrow> string" where
  "ext_of Svg = ''.svg''"
| "ext_of Pdf = ''.pdf''"
| "ext_of Png = ''.png''"

text \<open>
  A reference instance of the core library for evaluating the model: the renderer returns a
  tag naming the screen, and no call fails.
\<close>

definition demo_core :: "'l core_exporters" where
  "demo_core =
     \<lparr>SVGRenderer_render = (\<lambda>i l opts. Inr (''<svg>'' @ screenName opts @ ''</svg>'')),
      core_exportSVG = (\<lambda>s p. None),
      core_exportPNG = (\<lambda>s p w h. None),
      core_exportMultipagePDF = (\<lambda>ps p. None)\<rparr>"

definition demo_ir :: "string list \<Rightarrow> ir" where
  "demo_ir names = \<lparr>screens = Some (map (\<lambda>n. \<lparr>name = n, viewport = None\<rparr>) names)\<rparr>"

subsection \<open>The preview half of \<^verbatim>\<open>@wire-dsl/core\<close>\<close>

text \<open>What \<^verbatim>\<open>renderToSVG\<close> returned: a string, or a value of any other type.\<close>

datatype js_value = JsString string | JsOther

record ('a, 'l) core_preview =
  parseWireDSL :: "string \<Rightarrow> string + 'a"
  generateIR :: "'a \<Rightarrow> string + ir"
  calculateLayout :: "ir \<Rightarrow> string + 'l"
  renderToSVG :: "ir \<Rightarrow> 'l \<Rightarrow> render_options \<Rightarrow> string + js_value"

text \<open>The module object: one of the four functions may be missing from it.\<close>

datatype ('a, 'l) core_module = MissingExports | Exports "('a, 'l) core_preview"

text \<open>
  What the panel reads from its host at a render pass: the result of
  \<^verbatim>\<open>require('@wire-dsl/core')\<close> and the file name of the active editor when that editor
  holds a wire document.
\<close>

record ('a, 'l) host =
  require_core :: "string + ('a, 'l) core_module"
  activeWireFile :: "string option"

subsection \<open>\<^verbatim>\<open>WirePreviewPanel\<close>\<close>

text \<open>
  The content of the webview: the loading page, a waiting message, the error page with its
  message, or the page built by \<^verbatim>\<open>createHtmlWithSvg\<close> from the markup, the screen names,
  the selected screen and the current theme.
\<close>

datatype surface =
    LoadingPage
  | WaitingPage string
  | ErrorPage string
  | SvgPage string "string list" string theme

text \<open>Instrumentation: the render passes started and the calls made into the core library.\<close>

datatype engine_call =
    Call_updatePreview string
  | Call_parseWireDSL string
  | Call_generateIR
  | Call_calculateLayout
  | Call_renderToSVG render_options

text \<open>
  The fields of the panel. \<open>debounceTimer\<close> is the pending timeout, as its deadline in
  milliseconds and the text its callback captured; it is \<open>None\<close> when no timeout is pending
  (the source keeps the handle of a fired timeout, and clearing that handle has no effect).
  \<open>html\<close> is \<^verbatim>\<open>panel.webview.html\<close>; \<open>trace\<close> is the instrumentation, oldest call first.
\<close>

record ('a, 'l) panel =
  coreModule :: "('a, 'l) core_module option"
  debounceTimer :: "(nat \<times> string) option"
  currentTheme :: theme
  lastContent :: string
  availableScreens :: "string list"
  selectedScreen :: string
  lastIR :: "ir option"
  lastLayout :: "'l option"
  currentFilePath :: string
  html :: surface
  trace :: "engine_call list"

text \<open>
  The panel as the constructor leaves it for the configured theme, with the loading page
  that \<^verbatim>\<open>openPreview\<close> shows before the first render pass (when no wire document is
  active, \<^verbatim>\<open>openPreview\<close> goes on to show a waiting message instead of rendering).
\<close>

definition initial_panel :: "theme \<Rightarrow> ('a, 'l) panel" where
  "initial_panel th =
     \<lparr>coreModule = None, debounceTimer = None, currentTheme = th, lastContent = [],
      availableScreens = [], selectedScreen = [], lastIR = None, lastLayout = None,
      currentFilePath = [], html = LoadingPage, trace = []\<rparr>"

definition showError :: "string \<Rightarrow> ('a, 'l) panel \<Rightarrow> ('a, 'l) panel" where
  "showError message p = p\<lparr>html := ErrorPage message\<rparr>"

definition called :: "engine_call \<Rightarrow> ('a, 'l) panel \<Rightarrow> ('a, 'l) panel" where
  "called c p = p\<lparr>trace := trace p @ [c]\<rparr>"

text \<open>\<^verbatim>\<open>String.prototype.includes\<close>\<close>

definition starts_with :: "string \<Rightarrow> string \<Rightarrow> bool" where
  "starts_with s sub = (take (length sub) s = sub)"

fun str_includes :: "string \<Rightarrow> string \<Rightarrow> bool" where
  "str_includes [] sub = (sub = [])"
| "str_includes (c # cs) sub = (starts_with (c # cs) sub \<or> str_includes cs sub)"

definition is_gt :: "char \<Rightarrow> bool" where
  "is_gt c = (c = CHR ''>'')"

text \<open>
  The first match of \<^verbatim>\<open>/<svg([^>]*?)>/\<close>: the leftmost \<^verbatim>\<open><svg\<close> that is followed by a
  \<^verbatim>\<open>>\<close>, up to the first such \<^verbatim>\<open>>\<close>. The result is the text before the match, the group
  and the text after the match; \<open>passed\<close> accumulates the text gone through, reversed.
\<close>

fun match_svg_tag :: "string \<Rightarrow> string \<Rightarrow> (string \<times> string \<times> string) option" where
  "match_svg_tag passed [] = None"
| "match_svg_tag passed (c # cs) =
     (let rest = drop 4 (c # cs)
      in if starts_with (c # cs) ''<svg'' \<and> list_ex is_gt rest then
           Some (rev passed, takeWhile (\<lambda>x. \<not> is_gt x) rest, tl (dropWhile (\<lambda>x. \<not> is_gt x) rest))
         else match_svg_tag (c # passed) cs)"

definition dq :: char where
  "dq = CHR 0x22"

text \<open>
  Lines 690 to 696 of the panel:
  \<^verbatim>\<open>if (!svg.includes('width=') || !svg.includes('height=')) svg = svg.replace(...)\<close>
  with the replacement \<^verbatim>\<open><svg$1 width="1300" height="700">\<close>.
\<close>

definition ensure_dimensions :: "string \<Rightarrow> string" where
  "ensure_dimensions svg =
     (if \<not> str_includes svg ''width='' \<or> \<not> str_includes svg ''height='' then
        (case match_svg_tag [] svg of
           None \<Rightarrow> svg
         | Some (pre, attrs, post) \<Rightarrow>
             pre @ ''<svg'' @ attrs @ '' width='' @ [dq] @ ''1300'' @ [dq]
               @ '' height='' @ [dq] @ ''700'' @ [dq] @ ''>'' @ post)
      else svg)"

text \<open>\<^verbatim>\<open>ir.project.screens.map((s) => s.name || 'Unknown')\<close>, or no names without the array.\<close>

definition screen_names :: "ir \<Rightarrow> string list" where
  "screen_names i =
     (case screens i of
        None \<Rightarrow> []
      | Some scs \<Rightarrow> map (\<lambda>s. if name s = [] then ''Unknown'' else name s) scs)"

definition preview_options :: "theme \<Rightarrow> string \<Rightarrow> render_options" where
  "preview_options th selected =
     \<lparr>opt_width = 1300, opt_height = 700, opt_theme = th, includeLabels = True,
      screenName = selected\<rparr>"

text \<open>
  \<^verbatim>\<open>updatePreview\<close> is embedded step by step. Its first statements record the text and the
  file of the active editor.
\<close>

definition begin_pass ::
  "('a, 'l) host \<Rightarrow> string \<Rightarrow> ('a, 'l) panel \<Rightarrow> ('a, 'l) panel" where
  "begin_pass h content p =
     (called (Call_updatePreview content) p)
       \<lparr>lastContent := content,
        currentFilePath := (case activeWireFile h of Some f \<Rightarrow> f | None \<Rightarrow> currentFilePath p)\<rparr>"

text \<open>
  After \<^verbatim>\<open>generateIR\<close>: the IR is stored, the screen names are extracted, and the selection
  is initialised when it is empty (\<^verbatim>\<open>if (!this.selectedScreen && screens.length > 0)\<close>).
\<close>

definition store_ir :: "ir \<Rightarrow> ('a, 'l) panel \<Rightarrow> ('a, 'l) panel" where
  "store_ir i p =
     (let scs = screen_names i;
          p2 = p\<lparr>lastIR := Some i, availableScreens := scs\<rparr>
      in if selectedScreen p2 = [] \<and> length scs > 0 then p2\<lparr>selectedScreen := hd scs\<rparr> else p2)"

text \<open>
  The end of the pass: the check of what \<^verbatim>\<open>renderToSVG\<close> returned, the explicit width and
  height, and the new page.
\<close>

definition show_svg ::
  "string + js_value \<Rightarrow> string list \<Rightarrow> ('a, 'l) panel \<Rightarrow> ('a, 'l) panel" where
  "show_svg r scs p =
     (case r of
        Inl msg \<Rightarrow> showError msg p
      | Inr JsOther \<Rightarrow> showError ''SVG renderer returned invalid output'' p
      | Inr (JsString svg) \<Rightarrow>
          if svg = [] then showError ''SVG renderer returned invalid output'' p
          else p\<lparr>html := SvgPage (ensure_dimensions svg) scs (selectedScreen p) (currentTheme p)\<rparr>)"

text \<open>\<^verbatim>\<open>calculateLayout\<close>, the storing of the layout, and \<^verbatim>\<open>renderToSVG\<close>.\<close>

definition layout_and_render ::
  "('a, 'l) core_preview \<Rightarrow> ir \<Rightarrow> string list \<Rightarrow> ('a, 'l) panel \<Rightarrow> ('a, 'l) panel" where
  "layout_and_render e i scs p =
     (case calculateLayout e i of
        Inl msg \<Rightarrow> showError msg (called Call_calculateLayout p)
      | Inr layout \<Rightarrow>
          (let p5 = (called Call_calculateLayout p)\<lparr>lastLayout := Some layout\<rparr>;
               opts = preview_options (currentTheme p5) (selectedScreen p5)
           in show_svg (renderToSVG e i layout opts) scs (called (Call_renderToSVG opts) p5)))"

text \<open>
  The pipeline (parse, IR, layout, SVG) inside the \<^verbatim>\<open>try\<close>: an error thrown by a stage is
  caught and shown, and the assignments made before it stay.
\<close>

definition render_pass ::
  "('a, 'l) core_preview \<Rightarrow> string \<Rightarrow> ('a, 'l) panel \<Rightarrow> ('a, 'l) panel" where
  "render_pass e content p =
     (case parseWireDSL e content of
        Inl msg \<Rightarrow> showError msg (called (Call_parseWireDSL content) p)
      | Inr ast \<Rightarrow>
          (case generateIR e ast of
             Inl msg \<Rightarrow> showError msg (called Call_generateIR (called (Call_parseWireDSL content) p))
           | Inr i \<Rightarrow>
               layout_and_render e i (screen_names i)
                 (store_ir i (called Call_generateIR (called (Call_parseWireDSL content) p)))))"

definition with_module ::
  "('a, 'l) core_module \<Rightarrow> string \<Rightarrow> ('a, 'l) panel \<Rightarrow> ('a, 'l) panel" where
  "with_module m content p =
     (case m of
        MissingExports \<Rightarrow> showError ''Core module missing required exports'' p
      | Exports e \<Rightarrow> render_pass e content p)"

text \<open>The module is loaded once and cached; a failed load is shown and tried again next time.\<close>

definition updatePreview ::
  "('a, 'l) host \<Rightarrow> string \<Rightarrow> ('a, 'l) panel \<Rightarrow> ('a, 'l) panel" where
  "updatePreview h content p =
     (let p0 = begin_pass h content p
      in case coreModule p0 of
           Some m \<Rightarrow> with_module m content p0
         | None \<Rightarrow>
             (case require_core h of
                Inl msg \<Rightarrow> showError (''Failed to load @wire-dsl/core: '' @ msg) p0
              | Inr m \<Rightarrow> with_module m content (p0\<lparr>coreModule := Some m\<rparr>)))"

text \<open>
  \<^verbatim>\<open>updatePreviewDebounced\<close> at the time \<open>now\<close>: the pending timeout is cleared and a new
  one is set, 300 ms ahead, that will render the text given here.
\<close>

definition updatePreviewDebounced ::
  "nat \<Rightarrow> string \<Rightarrow> ('a, 'l) panel \<Rightarrow> ('a, 'l) panel" where
  "updatePreviewDebounced now content p = p\<lparr>debounceTimer := Some (now + 300, content)\<rparr>"

text \<open>The callback of the timeout.\<close>

definition timer_fires :: "('a, 'l) host \<Rightarrow> ('a, 'l) panel \<Rightarrow> ('a, 'l) panel" where
  "timer_fires h p =
     (case debounceTimer p of
        None \<Rightarrow> p
      | Some (deadline, content) \<Rightarrow> updatePreview h content (p\<lparr>debounceTimer := None\<rparr>))"

text \<open>The host's event loop reaching the time \<open>t\<close>: a timeout whose delay has elapsed fires.\<close>

definition run_timers :: "('a, 'l) host \<Rightarrow> nat \<Rightarrow> ('a, 'l) panel \<Rightarrow> ('a, 'l) panel" where
  "run_timers h t p =
     (case debounceTimer p of
        None \<Rightarrow> p
      | Some (deadline, content) \<Rightarrow> if deadline \<le> t then timer_fires h p else p)"

text \<open>
  A sequence of document changes, each with its arrival time and the text of the document:
  before a change is handled the timeouts due by then have fired.
\<close>

fun edit_events :: "('a, 'l) host \<Rightarrow> (nat \<times> string) list \<Rightarrow> ('a, 'l) panel \<Rightarrow> ('a, 'l) panel" where
  "edit_events h [] p = p"
| "edit_events h ((t, content) # es) p =
     edit_events h es (updatePreviewDebounced t content (run_timers h t p))"

text \<open>Consecutive changes less than 300 ms apart.\<close>

fun within_debounce :: "(nat \<times> string) list \<Rightarrow> bool" where
  "within_debounce [] = True"
| "within_debounce [e] = True"
| "within_debounce ((t1, c1) # (t2, c2) # es) =
     (t1 \<le> t2 \<and> t2 < t1 + 300 \<and> within_debounce ((t2, c2) # es))"

text \<open>The texts of the render passes started, in order.\<close>

fun renders :: "engine_call list \<Rightarrow> string list" where
  "renders [] = []"
| "renders (Call_updatePreview content # cs) = content # renders cs"
| "renders (c # cs) = renders cs"

text \<open>The messages of the webview handled by the panel.\<close>

datatype message = SetTheme theme | SelectScreen string | Export | OtherCommand


text \<open>
  \<^verbatim>\<open>exportAs\<close>, which the \<^verbatim>\<open>export\<close> message delegates to: either an error message is
  shown, or \<^verbatim>\<open>ExportManager.showExportDialog\<close> is called with a file name, an IR, the
  layout and the theme.
\<close>

datatype 'l export_request =
    ShowErrorMessage string
  | ShowExportDialog string ir 'l theme

text \<open>\<^verbatim>\<open>this.currentFilePath.split(/[\\/]/).pop() || 'export.wire'\<close>\<close>

definition is_separator :: "char \<Rightarrow> bool" where
  "is_separator c = (c = CHR ''/'' \<or> c = CHR 0x5C)"

definition export_file_name :: "string \<Rightarrow> string" where
  "export_file_name currentPath =
     (if currentPath = [] then ''export.wire''
      else
        let l = rev (takeWhile (\<lambda>c. \<not> is_separator c) (rev currentPath))
        in if l = [] then ''export.wire'' else l)"

text \<open>The message of the \<^verbatim>\<open>TypeError\<close> raised by \<^verbatim>\<open>screens.find\<close> when the IR has no screen array.\<close>

definition no_screens_array :: string where
  "no_screens_array =
     ''Cannot read properties of undefined (reading '' @ [CHR 0x27] @ ''find'' @ [CHR 0x27] @ '')''"

definition exportAs :: "('a, 'l) panel \<Rightarrow> 'l export_request" where
  "exportAs p =
     (case lastIR p of
        None \<Rightarrow> ShowErrorMessage ''No preview content available to export''
      | Some i \<Rightarrow>
          (case lastLayout p of
             None \<Rightarrow> ShowErrorMessage ''No preview content available to export''
           | Some layout \<Rightarrow>
               (case screens i of
                  None \<Rightarrow> ShowErrorMessage (''Export failed: '' @ no_screens_array)
                | Some scs \<Rightarrow>
                    (case find (\<lambda>s. name s = selectedScreen p) scs of
                       None \<Rightarrow> ShowErrorMessage ''Selected screen not found''
                     | Some screenToExport \<Rightarrow>
                         ShowExportDialog (export_file_name (currentFilePath p))
                           (i\<lparr>screens := Some [screenToExport]\<rparr>) layout (currentTheme p)))))"

text \<open>
  A reference instance of the preview library for evaluating the model. The text of a
  document is the comma-separated list of its screen names; the layout lists the names it
  was computed for. A text starting with an exclamation mark does not parse, a screen named
  Overflow makes the layout fail and a screen named Crash makes the renderer throw.
\<close>

fun split_commas :: "string \<Rightarrow> string \<Rightarrow> string list" where
  "split_commas acc [] = [rev acc]"
| "split_commas acc (c # cs) =
     (if c = CHR '','' then rev acc # split_commas [] cs else split_commas (c # acc) cs)"

definition demo_preview :: "(string list, string list) core_preview" where
  "demo_preview =
     \<lparr>parseWireDSL = (\<lambda>content.
        if starts_with content ''!'' then Inl ''Parse error'' else Inr (split_commas [] content)),
      generateIR = (\<lambda>ast. Inr (demo_ir ast)),
      calculateLayout = (\<lambda>i.
        if ''Overflow'' \<in> set (screen_names i) then Inl ''Layout failed''
        else Inr (screen_names i)),
      renderToSVG = (\<lambda>i l opts.
        if ''Crash'' \<in> set (screen_names i) then Inl ''Render failed''
        else Inr (JsString (''<svg>'' @ screenName opts @ ''</svg>'')))\<rparr>"

definition demo_host :: "(string list, string list) host" where
  "demo_host = \<lparr>require_core = Inr (Exports demo_preview), activeWireFile = Some ''/work/app.wire''\<rparr>"

text \<open>The session after a first pass over a document with the screens Login and Dashboard.\<close>

definition demo_session :: "(string list, string list) panel" where
  "demo_session = updatePreview demo_host ''Login,Dashboard'' (initial_panel dark)"

text \<open>
  The module a pass works with: the cached one, or else the result of loading it.
\<close>

definition module_of ::
  "('a, 'l) host \<Rightarrow> ('a, 'l) panel \<Rightarrow> string + ('a, 'l) core_module" where
  "module_of h p = (case coreModule p of Some m \<Rightarrow> Inr m | None \<Rightarrow> require_core h)"

text \<open>The screen name a pass renders: the selection, initialised when it was empty.\<close>

definition selection_for :: "ir \<Rightarrow> string \<Rightarrow> string" where
  "selection_for i selected =
     (if selected = [] \<and> screen_names i \<noteq> [] then hd (screen_names i) else selected)"

text \<open>
  A sample of markup whose root element has a \<^verbatim>\<open>viewBox\<close> only, while a child element
  carries \<^verbatim>\<open>width\<close> and \<^verbatim>\<open>height\<close>:
  \<^verbatim>\<open><svg viewBox="0 0 10 10"><rect width="5" height="5"/></svg>\<close>
\<close>

definition viewbox_svg :: string where
  "viewbox_svg =
     ''<svg viewBox='' @ [dq] @ ''0 0 10 10'' @ [dq] @ ''><rect width='' @ [dq] @ ''5'' @ [dq]
       @ '' height='' @ [dq] @ ''5'' @ [dq] @ ''/></svg>''"

text \<open>A host whose renderer returns that markup for every screen.\<close>

definition viewbox_host :: "(string list, string list) host" where
  "viewbox_host =
     \<lparr>require_core =
        Inr (Exports (demo_preview\<lparr>renderToSVG := (\<lambda>i l opts. Inr (JsString viewbox_svg))\<rparr>)),
      activeWireFile = Some ''/work/app.wire''\<rparr>"

section \<open>Properties of the export\<close>

lemma exportSVG_screens_ok:
  assumes "\<And>opts. SVGRenderer_render core i layout opts = Inr (svg_of opts)"
    and "\<And>s p. core_exportSVG core s p = None"
  shows "exportSVG_screens core i layout th dirPath baseName base scs =
           (Inr (),
            map (\<lambda>s. SvgFile (path_join dirPath (baseName @ ''-'' @ sanitizeScreenName (name s) @ ''.svg''))
                         (svg_of (renderer_options (viewport_of base s) th s))) scs)"
  by (induction scs) (simp_all add: assms)

lemma exportPNG_screens_ok:
  assumes "\<And>opts. SVGRenderer_render core i layout opts = Inr (svg_of opts)"
    and "\<And>s p w h. core_exportPNG core s p w h = None"
  shows "exportPNG_screens core i layout th dirPath baseName base scs =
           (Inr (),
            map (\<lambda>s. PngFile (path_join dirPath (baseName @ ''-'' @ sanitizeScreenName (name s) @ ''.png''))
                         (svg_of (renderer_options (viewport_of base s) th s))
                         (width (viewport_of base s)) (height (viewport_of base s))) scs)"
  by (induction scs) (simp_all add: assms Let_def)

lemma render_pages_ok:
  assumes "\<And>opts. SVGRenderer_render core i layout opts = Inr (svg_of opts)"
  shows "render_pages core i layout th base scs =
           Inr (map (\<lambda>s. Page (svg_of (renderer_options (viewport_of base s) th s))
                           (width (viewport_of base s)) (height (viewport_of base s)) (name s)) scs)"
  by (induction scs) (simp_all add: assms Let_def)

lemma rethrow_Inr [simp]: "rethrow prefix (Inr u, written) = (Inr u, written)"
  by (simp add: rethrow_def)

lemma rethrow_Inl [simp]: "rethrow prefix (Inl e, written) = (Inl (prefix @ e), written)"
  by (simp add: rethrow_def)

lemma map_const_single: "length xs = Suc 0 \<Longrightarrow> map (\<lambda>x. c) xs = [c]"
  by (cases xs) auto

text \<open>
  When no call into the core library fails, each export is a map over the screens. For a
  single screen the file is the chosen path; otherwise the path is derived per screen.
\<close>

lemma exportSVG_ok:
  assumes "\<And>opts. SVGRenderer_render core i layout opts = Inr (svg_of opts)"
    and "\<And>s p. core_exportSVG core s p = None"
    and "screens_of i \<noteq> []"
  shows "exportSVG core i layout th filePath =
           (Inr (),
            map (\<lambda>s. SvgFile
                   (if length (screens_of i) = 1 then filePath
                    else path_join (path_dirname filePath)
                           (path_basename filePath ''.svg'' @ ''-'' @ sanitizeScreenName (name s) @ ''.svg''))
                   (svg_of (renderer_options (viewport_of (baseViewport (screens_of i)) s) th s)))
              (screens_of i))"
proof (cases "length (screens_of i) = 1")
  case True
  then obtain s where "screens_of i = [s]"
    by (cases "screens_of i") auto
  then show ?thesis
    by (simp add: exportSVG_def assms(1,2))
next
  case False
  with assms(3) show ?thesis
    by (simp add: exportSVG_def Let_def exportSVG_screens_ok [OF assms(1,2)])
qed

lemma exportPNG_ok:
  assumes "\<And>opts. SVGRenderer_render core i layout opts = Inr (svg_of opts)"
    and "\<And>s p w h. core_exportPNG core s p w h = None"
    and "screens_of i \<noteq> []"
  shows "exportPNG core i layout th filePath =
           (Inr (),
            map (\<lambda>s. PngFile
                   (if length (screens_of i) = 1 then filePath
                    else path_join (path_dirname filePath)
                           (path_basename filePath ''.png'' @ ''-'' @ sanitizeScreenName (name s) @ ''.png''))
                   (svg_of (renderer_options (viewport_of (baseViewport (screens_of i)) s) th s))
                   (width (viewport_of (baseViewport (screens_of i)) s))
                   (height (viewport_of (baseViewport (screens_of i)) s)))
              (screens_of i))"
proof (cases "length (screens_of i) = 1")
  case True
  then obtain s where "screens_of i = [s]"
    by (cases "screens_of i") auto
  then show ?thesis
    by (simp add: exportPNG_def Let_def assms(1,2))
next
  case False
  with assms(3) show ?thesis
    by (simp add: exportPNG_def Let_def exportPNG_screens_ok [OF assms(1,2)])
qed

lemma exportPDF_ok:
  assumes "\<And>opts. SVGRenderer_render core i layout opts = Inr (svg_of opts)"
    and "\<And>ps p. core_exportMultipagePDF core ps p = None"
    and "screens_of i \<noteq> []"
  shows "exportPDF core i layout th filePath =
           (Inr (),
            [PdfFile filePath
               (map (\<lambda>s. Page (svg_of (renderer_options (viewport_of (baseViewport (screens_of i)) s) th s))
                           (width (viewport_of (baseViewport (screens_of i)) s))
                           (height (viewport_of (baseViewport (screens_of i)) s)) (name s))
                  (screens_of i))])"
  using assms(3)
  by (simp add: exportPDF_def Let_def render_pages_ok [OF assms(1)] assms(2))

lemma demo_core_render:
  "SVGRenderer_render demo_core i l opts = Inr (''<svg>'' @ screenName opts @ ''</svg>'')"
  by (simp add: demo_core_def)

lemma demo_core_exportSVG: "core_exportSVG demo_core s p = None"
  by (simp add: demo_core_def)

lemma demo_core_exportPNG: "core_exportPNG demo_core s p w h = None"
  by (simp add: demo_core_def)

lemma demo_core_exportMultipagePDF: "core_exportMultipagePDF demo_core ps p = None"
  by (simp add: demo_core_def)

lemma screens_of_demo_ir [simp]:
  "screens_of (demo_ir names) = map (\<lambda>n. \<lparr>name = n, viewport = None\<rparr>) names"
  by (simp add: screens_of_def demo_ir_def)

subsection \<open>Fan-out of the image formats\<close>

text \<open>
  An export to SVG or PNG of an IR with \<open>N \<ge> 1\<close> screens, in which no render and no write
  fails, returns normally after \<open>N\<close> writes, the k-th of the render of the k-th screen; when
  \<open>N = 1\<close> the one write goes to the chosen path itself.
\<close>

lemma export_image_writes:
  assumes "\<And>opts. SVGRenderer_render core i layout opts = Inr (svg_of opts)"
    and "\<And>s p. core_exportSVG core s p = None"
    and "\<And>s p w h. core_exportPNG core s p w h = None"
    and "fid = Svg \<or> fid = Png"
    and "screens_of i \<noteq> []"
  shows "fst (exportToFormat core fid i layout th filePath) = Inr ()
       \<and> length (snd (exportToFormat core fid i layout th filePath)) = length (screens_of i)
       \<and> map artifact_svg (snd (exportToFormat core fid i layout th filePath)) =
           map (\<lambda>s. svg_of (renderer_options (viewport_of (baseViewport (screens_of i)) s) th s))
             (screens_of i)
       \<and> (length (screens_of i) = 1 \<longrightarrow>
            map artifact_path (snd (exportToFormat core fid i layout th filePath)) = [filePath])"
proof -
  from assms(4) show ?thesis
  proof
    assume "fid = Svg"
    then show ?thesis
      by (simp add: exportSVG_ok [OF assms(1,2,5)] comp_def map_const_single)
  next
    assume "fid = Png"
    then show ?thesis
      by (simp add: exportPNG_ok [OF assms(1,3,5)] comp_def map_const_single)
  qed
qed

lemma export_image_writes_example:
  "fst (exportToFormat demo_core Png (demo_ir [''Login'', ''Dashboard'']) () dark ''/exports/out.png'') = Inr ()
   \<and> length (snd (exportToFormat demo_core Png (demo_ir [''Login'', ''Dashboard'']) () dark ''/exports/out.png'')) = 2
   \<and> fst (exportToFormat demo_core Svg (demo_ir [''Login'']) () light ''/exports/out.svg'') = Inr ()
   \<and> map artifact_path (snd (exportToFormat demo_core Svg (demo_ir [''Login'']) () light ''/exports/out.svg''))
       = [''/exports/out.svg'']"
proof -
  have two: "screens_of (demo_ir [''Login'', ''Dashboard'']) \<noteq> []"
    by simp
  have one: "screens_of (demo_ir [''Login'']) \<noteq> []"
    by simp
  from export_image_writes [OF demo_core_render demo_core_exportSVG demo_core_exportPNG _ two,
      where fid = Png and th = dark and filePath = "''/exports/out.png''" and layout = "()"]
    export_image_writes [OF demo_core_render demo_core_exportSVG demo_core_exportPNG _ one,
      where fid = Svg and th = light and filePath = "''/exports/out.svg''" and layout = "()"]
  show ?thesis by simp
qed

lemma write_file_paths:
  "artifact_path ` set (write_file a fs) = insert (artifact_path a) (artifact_path ` set fs)"
  by (auto simp: write_file_def)

lemma write_file_distinct:
  "distinct (map artifact_path fs) \<Longrightarrow> distinct (map artifact_path (write_file a fs))"
  by (auto simp: write_file_def distinct_map_filter)

lemma files_after_paths:
  "distinct (map artifact_path fs) \<Longrightarrow>
     distinct (map artifact_path (files_after fs written))
     \<and> set (map artifact_path (files_after fs written)) =
         set (map artifact_path fs) \<union> set (map artifact_path written)"
proof (induction written arbitrary: fs)
  case Nil
  then show ?case by simp
next
  case (Cons a written)
  from Cons.IH [OF write_file_distinct [OF Cons.prems, of a]] show ?case
    by (simp add: write_file_paths)
qed

text \<open>The number of files left by the writes is the number of different paths written.\<close>

lemma files_after_count:
  "length (files_after [] written) = card (set (map artifact_path written))"
proof -
  from files_after_paths [of "[]" written]
  have d: "distinct (map artifact_path (files_after [] written))"
    and s: "set (map artifact_path (files_after [] written)) = set (map artifact_path written)"
    by simp_all
  from distinct_card [OF d] s show ?thesis
    by simp
qed

text \<open>
  With more than one screen the files left by such an export are as many as the different
  paths derived from the screens' names.
\<close>

lemma export_image_files:
  assumes "\<And>opts. SVGRenderer_render core i layout opts = Inr (svg_of opts)"
    and "\<And>s p. core_exportSVG core s p = None"
    and "\<And>s p w h. core_exportPNG core s p w h = None"
    and "fid = Svg \<or> fid = Png"
    and "1 < length (screens_of i)"
  shows "length (files_after [] (snd (exportToFormat core fid i layout th filePath))) =
           card ((\<lambda>s. path_join (path_dirname filePath)
                         (path_basename filePath (ext_of fid) @ ''-'' @ sanitizeScreenName (name s)
                            @ ext_of fid)) ` set (screens_of i))"
proof -
  from assms(5) have ne: "screens_of i \<noteq> []" and many: "length (screens_of i) \<noteq> 1"
    by auto
  from assms(4) show ?thesis
  proof
    assume "fid = Svg"
    then show ?thesis
      using many
      by (simp add: files_after_count exportSVG_ok [OF assms(1,2) ne] comp_def image_image)
  next
    assume "fid = Png"
    then show ?thesis
      using many
      by (simp add: files_after_count exportPNG_ok [OF assms(1,3) ne] comp_def image_image)
  qed
qed

text \<open>
  Claim C1. The source documents the export of several screens as one file per screen.
  Two screens whose names differ but sanitize to the same text are written to the same
  path: for the screens Login and login exported to \<^verbatim>\<open>out.png\<close> the export returns
  normally after two writes to \<^verbatim>\<open>out-login.png\<close>, and the one file left holds the render
  of the second screen. The same happens for the screens named \<^verbatim>\<open>A B\<close> and \<^verbatim>\<open>a-b\<close>.
\<close>

theorem export_image_name_collision:
  "fst (exportToFormat demo_core Png (demo_ir [''Login'', ''login'']) () dark ''/exports/out.png'')
     = Inr ()
   \<and> map artifact_path
        (snd (exportToFormat demo_core Png (demo_ir [''Login'', ''login'']) () dark ''/exports/out.png''))
     = [''/exports/out-login.png'', ''/exports/out-login.png'']
   \<and> files_after []
        (snd (exportToFormat demo_core Png (demo_ir [''Login'', ''login'']) () dark ''/exports/out.png''))
     = [PngFile ''/exports/out-login.png'' ''<svg>login</svg>'' 1280 720]
   \<and> files_after []
        (snd (exportToFormat demo_core Svg (demo_ir [''A B'', ''a-b'']) () dark ''/exports/out.svg''))
     = [SvgFile ''/exports/out-a-b.svg'' ''<svg>a-b</svg>'']"
  by code_simp

theorem export_image_name_collision_witness:
  "length (files_after []
     (snd (exportToFormat demo_core Png (demo_ir [''Login'', ''login'']) () dark ''/exports/out.png'')))
     = 1
   \<and> length (screens_of (demo_ir [''Login'', ''login''])) = 2"
  using export_image_name_collision by simp

lemma replace_whitespace_runs_prefix:
  "list_all (\<lambda>c. \<not> is_whitespace c) pre \<Longrightarrow>
     replace_whitespace_runs (pre @ rest) = pre @ replace_whitespace_runs rest"
  by (induction pre) (simp_all add: replace_whitespace_runs.simps)

lemma replace_whitespace_runs_run:
  assumes "ws \<noteq> []" and "list_all is_whitespace ws"
    and "post = [] \<or> \<not> is_whitespace (hd post)"
  shows "replace_whitespace_runs (ws @ post) = CHR ''-'' # replace_whitespace_runs post"
proof -
  from assms(1) obtain w ws' where ws: "ws = w # ws'"
    by (cases ws) auto
  with assms(2) have w: "is_whitespace w" and all: "\<And>x. x \<in> set ws' \<Longrightarrow> is_whitespace x"
    by (auto simp: list_all_iff)
  have "dropWhile is_whitespace (ws' @ post) = dropWhile is_whitespace post"
    using all by (rule dropWhile_append2)
  also have "\<dots> = post"
    using assms(3) by (simp add: dropWhile_eq_self_iff)
  finally show ?thesis
    using w by (simp add: ws replace_whitespace_runs.simps)
qed

lemma sanitizeScreenName_alphabet: "list_all is_name_char (sanitizeScreenName nm)"
  by (simp add: sanitizeScreenName_def remove_other_chars_def list_all_iff)

subsection \<open>Names of the per-screen files\<close>

text \<open>
  Claim C4. In an export to SVG or PNG of an IR with more than one screen, in which no
  call fails, the file of each screen is written to the directory of the chosen path, under
  the name of the chosen file without the format's extension, a hyphen, the sanitized
  screen name and the extension. Sanitizing lowercases the name, then turns each maximal
  run of whitespace into one hyphen, then keeps only the characters \<^verbatim>\<open>a-z\<close>, \<^verbatim>\<open>0-9\<close> and
  \<^verbatim>\<open>-\<close>. The witness is the scenario of the screens Login and Dashboard exported to
  \<^verbatim>\<open>out.png\<close>.
\<close>

theorem export_per_view_filenames:
  assumes "\<And>opts. SVGRenderer_render core i layout opts = Inr (svg_of opts)"
    and "\<And>s p. core_exportSVG core s p = None"
    and "\<And>s p w h. core_exportPNG core s p w h = None"
    and "fid = Svg \<or> fid = Png"
    and "1 < length (screens_of i)"
    and "list_all (\<lambda>c. \<not> is_whitespace c) pre"
    and "ws \<noteq> []" and "list_all is_whitespace ws"
    and "post = [] \<or> \<not> is_whitespace (hd post)"
  shows "map artifact_path (snd (exportToFormat core fid i layout th filePath)) =
           map (\<lambda>s. path_join (path_dirname filePath)
                       (path_basename filePath (ext_of fid) @ ''-'' @ sanitizeScreenName (name s)
                          @ ext_of fid))
             (screens_of i)
       \<and> sanitizeScreenName nm =
           filter is_name_char (replace_whitespace_runs (map toLowerCase_char nm))
       \<and> replace_whitespace_runs (pre @ ws @ post) = pre @ ''-'' @ replace_whitespace_runs post
       \<and> list_all is_name_char (sanitizeScreenName nm)"
proof -
  from assms(5) have ne: "screens_of i \<noteq> []" and many: "length (screens_of i) \<noteq> 1"
    by auto
  have paths: "map artifact_path (snd (exportToFormat core fid i layout th filePath)) =
           map (\<lambda>s. path_join (path_dirname filePath)
                       (path_basename filePath (ext_of fid) @ ''-'' @ sanitizeScreenName (name s)
                          @ ext_of fid))
             (screens_of i)"
    using assms(4)
  proof
    assume "fid = Svg"
    then show ?thesis
      using many by (simp add: exportSVG_ok [OF assms(1,2) ne] comp_def)
  next
    assume "fid = Png"
    then show ?thesis
      using many by (simp add: exportPNG_ok [OF assms(1,3) ne] comp_def)
  qed
  have steps: "sanitizeScreenName nm =
           filter is_name_char (replace_whitespace_runs (map toLowerCase_char nm))"
    by (simp add: sanitizeScreenName_def remove_other_chars_def toLowerCase_def)
  have run: "replace_whitespace_runs (pre @ ws @ post) = pre @ ''-'' @ replace_whitespace_runs post"
    by (simp add: replace_whitespace_runs_prefix [OF assms(6)]
        replace_whitespace_runs_run [OF assms(7,8,9)])
  from paths steps run sanitizeScreenName_alphabet show ?thesis
    by blast
qed

theorem export_per_view_filenames_witness:
  "map artifact_path
     (snd (exportToFormat demo_core Png (demo_ir [''Login'', ''Dashboard'']) () dark ''/exports/out.png''))
     = [''/exports/out-login.png'', ''/exports/out-dashboard.png'']
   \<and> sanitizeScreenName ''My  Dash Board!'' = ''my-dash-board''
   \<and> replace_whitespace_runs ''my  dash'' = ''my-dash''"
proof -
  have many: "1 < length (screens_of (demo_ir [''Login'', ''Dashboard'']))"
    by simp
  have pre: "list_all (\<lambda>c. \<not> is_whitespace c) ''my''"
    by (simp add: is_whitespace_def)
  have ws: "''  '' \<noteq> []" "list_all is_whitespace ''  ''"
    by (simp_all add: is_whitespace_def)
  have post: "''dash'' = [] \<or> \<not> is_whitespace (hd ''dash'')"
    by (simp add: is_whitespace_def)
  have e1: "path_join (path_dirname ''/exports/out.png'')
              (path_basename ''/exports/out.png'' (ext_of Png) @ ''-'' @ sanitizeScreenName ''Login''
                 @ ext_of Png) = ''/exports/out-login.png''"
    by code_simp
  have e2: "path_join (path_dirname ''/exports/out.png'')
              (path_basename ''/exports/out.png'' (ext_of Png) @ ''-'' @ sanitizeScreenName ''Dashboard''
                 @ ext_of Png) = ''/exports/out-dashboard.png''"
    by code_simp
  have e3: "filter is_name_char (replace_whitespace_runs (map toLowerCase_char ''My  Dash Board!''))
              = ''my-dash-board''"
    by code_simp
  have e4: "replace_whitespace_runs ''dash'' = ''dash''"
    by code_simp
  from export_per_view_filenames [OF demo_core_render demo_core_exportSVG demo_core_exportPNG _
      many pre ws post, where fid = Png and th = dark and filePath = "''/exports/out.png''"
        and nm = "''My  Dash Board!''" and layout = "()"] e1 e2 e3 e4
  show ?thesis by simp
qed

subsection \<open>The paginated export\<close>

text \<open>
  Claim C3. An export to PDF of an IR with \<open>N \<ge> 1\<close> screens, in which no render fails and
  the write succeeds, writes exactly one file, to the chosen path, with \<open>N\<close> pages in the
  order of the screens; page \<open>k\<close> carries the name and the render of screen \<open>k\<close> and has the
  width and height of that screen's viewport (of the first screen's viewport, or 1280 by
  720, when the screen declares none).
\<close>

theorem export_pdf_pages:
  assumes "\<And>opts. SVGRenderer_render core i layout opts = Inr (svg_of opts)"
    and "\<And>ps p. core_exportMultipagePDF core ps p = None"
    and "screens_of i \<noteq> []"
    and "k < length (screens_of i)"
    and "pages = map (\<lambda>s. Page (svg_of (renderer_options (viewport_of (baseViewport (screens_of i)) s) th s))
                           (width (viewport_of (baseViewport (screens_of i)) s))
                           (height (viewport_of (baseViewport (screens_of i)) s)) (name s))
                  (screens_of i)"
  shows "exportToFormat core Pdf i layout th filePath = (Inr (), [PdfFile filePath pages])
       \<and> length pages = length (screens_of i)
       \<and> map page_name pages = map name (screens_of i)
       \<and> page_name (pages ! k) = name (screens_of i ! k)
       \<and> page_svg (pages ! k) =
           svg_of \<lparr>opt_width = page_width (pages ! k), opt_height = page_height (pages ! k),
                   opt_theme = th, includeLabels = True, screenName = name (screens_of i ! k)\<rparr>
       \<and> (case viewport (screens_of i ! k) of
            Some v \<Rightarrow> page_width (pages ! k) = width v \<and> page_height (pages ! k) = height v
          | None \<Rightarrow> page_width (pages ! k) = width (baseViewport (screens_of i))
                  \<and> page_height (pages ! k) = height (baseViewport (screens_of i)))"
  using assms(4)
  by (simp add: exportPDF_ok [OF assms(1,2,3)] assms(5) comp_def renderer_options_def
      viewport_of_def split: option.split)

theorem export_pdf_pages_witness:
  "exportToFormat demo_core Pdf
     \<lparr>screens = Some [\<lparr>name = ''Login'', viewport = Some \<lparr>width = 375, height = 812\<rparr>\<rparr>,
                       \<lparr>name = ''Dashboard'', viewport = Some \<lparr>width = 1280, height = 720\<rparr>\<rparr>]\<rparr>
     () dark ''/exports/out.pdf''
   = (Inr (), [PdfFile ''/exports/out.pdf''
                 [Page ''<svg>Login</svg>'' 375 812 ''Login'',
                  Page ''<svg>Dashboard</svg>'' 1280 720 ''Dashboard'']])"
proof -
  let ?i = "\<lparr>screens = Some [\<lparr>name = ''Login'', viewport = Some \<lparr>width = 375, height = 812\<rparr>\<rparr>,
                       \<lparr>name = ''Dashboard'', viewport = Some \<lparr>width = 1280, height = 720\<rparr>\<rparr>]\<rparr>"
  have ne: "screens_of ?i \<noteq> []" and k: "1 < length (screens_of ?i)"
    by (simp_all add: screens_of_def)
  from export_pdf_pages [OF demo_core_render demo_core_exportMultipagePDF ne k refl,
      where th = dark and filePath = "''/exports/out.pdf''" and layout = "()"]
  show ?thesis
    by (simp add: screens_of_def renderer_options_def viewport_of_def baseViewport_def)
qed

subsection \<open>Export of an IR without screens\<close>

text \<open>
  Claim C8. When the IR has no screen, the export fails in each of the three formats with
  the error "No screens found in project" (prefixed by the format's own failure text),
  nothing is written, and the dialog reports the failure without remembering a directory.
  Conversely an export that returns normally had at least one screen.
\<close>

theorem export_no_views:
  "(screens_of i = [] \<longrightarrow>
      exportToFormat core Svg i layout th filePath =
        (Inl ''SVG export failed: No screens found in project'', [])
    \<and> exportToFormat core Pdf i layout th filePath =
        (Inl ''PDF export failed: No screens found in project'', [])
    \<and> exportToFormat core Png i layout th filePath =
        (Inl ''PNG export failed: No screens found in project'', [])
    \<and> showExportDialog core lastDir (Some fmt) (Some filePath) currentFileName i layout th =
        (Some (ErrorMessage (''Export failed: ''
           @ (case fmt_id fmt of Svg \<Rightarrow> ''SVG'' | Pdf \<Rightarrow> ''PDF'' | Png \<Rightarrow> ''PNG'')
           @ '' export failed: No screens found in project'')), [], lastDir))
   \<and> (fst (exportToFormat core fid i layout th filePath) = Inr () \<longrightarrow> screens_of i \<noteq> [])"
  by (cases fid; cases "fmt_id fmt")
    (auto simp: exportSVG_def exportPDF_def exportPNG_def showExportDialog_def)

theorem export_no_views_witness:
  "exportToFormat demo_core Svg (demo_ir []) () dark ''/exports/out.svg'' =
     (Inl ''SVG export failed: No screens found in project'', [])
   \<and> exportToFormat demo_core Pdf (demo_ir []) () dark ''/exports/out.svg'' =
     (Inl ''PDF export failed: No screens found in project'', [])
   \<and> exportToFormat demo_core Png (demo_ir []) () dark ''/exports/out.svg'' =
     (Inl ''PNG export failed: No screens found in project'', [])
   \<and> screens_of (demo_ir [''Login'']) \<noteq> []"
proof -
  have empty: "screens_of (demo_ir []) = []"
    by simp
  have "screens_of (demo_ir [''Login'']) \<noteq> []"
    by simp
  from exportSVG_ok [OF demo_core_render demo_core_exportSVG this,
      where th = light and filePath = "''/exports/one.svg''" and layout = "()"]
  have ok: "fst (exportToFormat demo_core Svg (demo_ir [''Login'']) () light ''/exports/one.svg'') = Inr ()"
    by simp
  from export_no_views [where i = "demo_ir []" and core = demo_core and layout = "()"
      and th = dark and filePath = "''/exports/out.svg''"] empty
    export_no_views [where i = "demo_ir [''Login'']" and core = demo_core and layout = "()"
      and th = light and filePath = "''/exports/one.svg''" and fid = Svg] ok
  show ?thesis
    by blast
qed

section \<open>Properties of the preview panel\<close>

subsection \<open>What the steps of a render pass leave alone\<close>

lemma renders_append [simp]: "renders (xs @ ys) = renders xs @ renders ys"
  by (induction xs rule: renders.induct) simp_all

text \<open>What the two elementary updates leave alone.\<close>

lemma called_fields [simp]:
  "trace (called c p) = trace p @ [c]"
  "lastIR (called c p) = lastIR p"
  "lastLayout (called c p) = lastLayout p"
  "selectedScreen (called c p) = selectedScreen p"
  "availableScreens (called c p) = availableScreens p"
  "currentTheme (called c p) = currentTheme p"
  "debounceTimer (called c p) = debounceTimer p"
  "coreModule (called c p) = coreModule p"
  "html (called c p) = html p"
  "lastContent (called c p) = lastContent p"
  by (simp_all add: called_def)

lemma showError_fields [simp]:
  "trace (showError msg p) = trace p"
  "lastIR (showError msg p) = lastIR p"
  "lastLayout (showError msg p) = lastLayout p"
  "selectedScreen (showError msg p) = selectedScreen p"
  "availableScreens (showError msg p) = availableScreens p"
  "currentTheme (showError msg p) = currentTheme p"
  "debounceTimer (showError msg p) = debounceTimer p"
  "coreModule (showError msg p) = coreModule p"
  "html (showError msg p) = ErrorPage msg"
  "lastContent (showError msg p) = lastContent p"
  by (simp_all add: showError_def)

lemma begin_pass_fields [simp]:
  "trace (begin_pass h content p) = trace p @ [Call_updatePreview content]"
  "lastIR (begin_pass h content p) = lastIR p"
  "lastLayout (begin_pass h content p) = lastLayout p"
  "selectedScreen (begin_pass h content p) = selectedScreen p"
  "availableScreens (begin_pass h content p) = availableScreens p"
  "currentTheme (begin_pass h content p) = currentTheme p"
  "debounceTimer (begin_pass h content p) = debounceTimer p"
  "coreModule (begin_pass h content p) = coreModule p"
  "html (begin_pass h content p) = html p"
  "lastContent (begin_pass h content p) = content"
  by (simp_all add: begin_pass_def called_def)

lemma store_ir_fields [simp]:
  "trace (store_ir i p) = trace p"
  "lastIR (store_ir i p) = Some i"
  "lastLayout (store_ir i p) = lastLayout p"
  "selectedScreen (store_ir i p) = selection_for i (selectedScreen p)"
  "availableScreens (store_ir i p) = screen_names i"
  "currentTheme (store_ir i p) = currentTheme p"
  "debounceTimer (store_ir i p) = debounceTimer p"
  "coreModule (store_ir i p) = coreModule p"
  "html (store_ir i p) = html p"
  "lastContent (store_ir i p) = lastContent p"
  by (simp_all add: store_ir_def Let_def selection_for_def)

lemma show_svg_fields [simp]:
  "trace (show_svg r scs p) = trace p"
  "lastIR (show_svg r scs p) = lastIR p"
  "lastLayout (show_svg r scs p) = lastLayout p"
  "selectedScreen (show_svg r scs p) = selectedScreen p"
  "availableScreens (show_svg r scs p) = availableScreens p"
  "currentTheme (show_svg r scs p) = currentTheme p"
  "debounceTimer (show_svg r scs p) = debounceTimer p"
  "coreModule (show_svg r scs p) = coreModule p"
  "lastContent (show_svg r scs p) = lastContent p"
  by (simp_all add: show_svg_def split: sum.split js_value.split)

lemma layout_and_render_fields [simp]:
  "renders (trace (layout_and_render e i scs p)) = renders (trace p)"
  "lastIR (layout_and_render e i scs p) = lastIR p"
  "selectedScreen (layout_and_render e i scs p) = selectedScreen p"
  "availableScreens (layout_and_render e i scs p) = availableScreens p"
  "currentTheme (layout_and_render e i scs p) = currentTheme p"
  "debounceTimer (layout_and_render e i scs p) = debounceTimer p"
  "coreModule (layout_and_render e i scs p) = coreModule p"
  "lastContent (layout_and_render e i scs p) = lastContent p"
  by (simp_all add: layout_and_render_def Let_def split: sum.split)

lemma render_pass_fields [simp]:
  "renders (trace (render_pass e content p)) = renders (trace p)"
  "debounceTimer (render_pass e content p) = debounceTimer p"
  "currentTheme (render_pass e content p) = currentTheme p"
  "coreModule (render_pass e content p) = coreModule p"
  "lastContent (render_pass e content p) = lastContent p"
  by (simp_all add: render_pass_def split: sum.split)

lemma with_module_fields [simp]:
  "renders (trace (with_module m content p)) = renders (trace p)"
  "debounceTimer (with_module m content p) = debounceTimer p"
  "currentTheme (with_module m content p) = currentTheme p"
  "lastContent (with_module m content p) = lastContent p"
  "coreModule (with_module m content p) = coreModule p"
  by (simp_all add: with_module_def split: core_module.split)

lemma renders_updatePreview [simp]:
  "renders (trace (updatePreview h content p)) = renders (trace p) @ [content]"
  by (simp add: updatePreview_def Let_def split: option.split sum.split)

lemma debounceTimer_updatePreview [simp]:
  "debounceTimer (updatePreview h content p) = debounceTimer p"
  by (simp add: updatePreview_def Let_def split: option.split sum.split)

subsection \<open>The stages of a render pass\<close>

lemma update_same_coreModule: "coreModule r = v \<Longrightarrow> r\<lparr>coreModule := v\<rparr> = r"
  by (cases r) auto

lemma updatePreview_loaded:
  assumes "module_of h p = Inr (Exports e)"
  shows "updatePreview h content p =
           render_pass e content ((begin_pass h content p)\<lparr>coreModule := Some (Exports e)\<rparr>)"
proof (cases "coreModule p")
  case None
  with assms show ?thesis
    by (simp add: updatePreview_def module_of_def Let_def with_module_def)
next
  case (Some m)
  with assms have "coreModule (begin_pass h content p) = Some (Exports e)"
    by (simp add: module_of_def)
  then have eq: "(begin_pass h content p)\<lparr>coreModule := Some (Exports e)\<rparr> = begin_pass h content p"
    by (rule update_same_coreModule)
  from Some assms have "updatePreview h content p = render_pass e content (begin_pass h content p)"
    by (simp add: updatePreview_def module_of_def Let_def with_module_def)
  then show ?thesis
    by (simp only: eq)
qed

lemma updatePreview_load_fails:
  assumes "module_of h p = Inl msg"
  shows "updatePreview h content p =
           showError (''Failed to load @wire-dsl/core: '' @ msg) (begin_pass h content p)"
  using assms
  by (cases "coreModule p") (simp_all add: updatePreview_def module_of_def Let_def)

lemma updatePreview_missing_exports:
  assumes "module_of h p = Inr MissingExports"
  shows "lastIR (updatePreview h content p) = lastIR p
       \<and> lastLayout (updatePreview h content p) = lastLayout p
       \<and> html (updatePreview h content p) = ErrorPage ''Core module missing required exports''"
  using assms
  by (cases "coreModule p")
    (simp_all add: updatePreview_def module_of_def Let_def with_module_def)

lemma selection_for_kept [simp]: "selected \<noteq> [] \<Longrightarrow> selection_for i selected = selected"
  by (simp add: selection_for_def)

lemma selectedScreen_render_pass:
  "selectedScreen p \<noteq> [] \<Longrightarrow> selectedScreen (render_pass e content p) = selectedScreen p"
  by (simp add: render_pass_def split: sum.split)

lemma selectedScreen_updatePreview:
  "selectedScreen p \<noteq> [] \<Longrightarrow> selectedScreen (updatePreview h content p) = selectedScreen p"
  by (simp add: updatePreview_def Let_def with_module_def
      selectedScreen_render_pass split: option.split sum.split core_module.split)

text \<open>A pass whose first three stages succeed, up to the call of the renderer.\<close>

lemma render_pass_until_render:
  assumes "parseWireDSL e content = Inr ast" and "generateIR e ast = Inr i"
    and "calculateLayout e i = Inr layout"
  shows "lastIR (render_pass e content p) = Some i"
    and "lastLayout (render_pass e content p) = Some layout"
    and "selectedScreen (render_pass e content p) = selection_for i (selectedScreen p)"
    and "availableScreens (render_pass e content p) = screen_names i"
    and "trace (render_pass e content p) =
           trace p @ [Call_parseWireDSL content, Call_generateIR, Call_calculateLayout,
                      Call_renderToSVG (preview_options (currentTheme p)
                                          (selection_for i (selectedScreen p)))]"
  using assms by (simp_all add: render_pass_def layout_and_render_def Let_def)

lemma html_show_svg:
  "html (show_svg r scs p) =
     (case r of
        Inl msg \<Rightarrow> ErrorPage msg
      | Inr JsOther \<Rightarrow> ErrorPage ''SVG renderer returned invalid output''
      | Inr (JsString svg) \<Rightarrow>
          if svg = [] then ErrorPage ''SVG renderer returned invalid output''
          else SvgPage (ensure_dimensions svg) scs (selectedScreen p) (currentTheme p))"
  by (simp add: show_svg_def split: sum.split js_value.split)

lemma render_pass_render_result:
  assumes "parseWireDSL e content = Inr ast" and "generateIR e ast = Inr i"
    and "calculateLayout e i = Inr layout"
  shows "html (render_pass e content p) =
           (case renderToSVG e i layout
                   (preview_options (currentTheme p) (selection_for i (selectedScreen p))) of
              Inl msg \<Rightarrow> ErrorPage msg
            | Inr JsOther \<Rightarrow> ErrorPage ''SVG renderer returned invalid output''
            | Inr (JsString svg) \<Rightarrow>
                if svg = [] then ErrorPage ''SVG renderer returned invalid output''
                else SvgPage (ensure_dimensions svg) (screen_names i)
                       (selection_for i (selectedScreen p)) (currentTheme p))"
  using assms
  by (simp add: render_pass_def layout_and_render_def Let_def html_show_svg
      split: sum.split js_value.split)

lemma render_pass_parse_fails:
  assumes "parseWireDSL e content = Inl msg"
  shows "lastIR (render_pass e content p) = lastIR p"
    and "lastLayout (render_pass e content p) = lastLayout p"
    and "html (render_pass e content p) = ErrorPage msg"
    and "trace (render_pass e content p) = trace p @ [Call_parseWireDSL content]"
  using assms by (simp_all add: render_pass_def)

lemma render_pass_ir_fails:
  assumes "parseWireDSL e content = Inr ast" and "generateIR e ast = Inl msg"
  shows "lastIR (render_pass e content p) = lastIR p"
    and "lastLayout (render_pass e content p) = lastLayout p"
    and "html (render_pass e content p) = ErrorPage msg"
  using assms by (simp_all add: render_pass_def)

lemma render_pass_layout_fails:
  assumes "parseWireDSL e content = Inr ast" and "generateIR e ast = Inr i"
    and "calculateLayout e i = Inl msg"
  shows "lastIR (render_pass e content p) = Some i"
    and "lastLayout (render_pass e content p) = lastLayout p"
    and "html (render_pass e content p) = ErrorPage msg"
  using assms by (simp_all add: render_pass_def layout_and_render_def)

text \<open>A whole pass whose first three stages succeed.\<close>

lemma updatePreview_pass:
  assumes "module_of h p = Inr (Exports e)" and "parseWireDSL e content = Inr ast"
    and "generateIR e ast = Inr i" and "calculateLayout e i = Inr layout"
  shows "trace (updatePreview h content p) =
           trace p @ [Call_updatePreview content, Call_parseWireDSL content, Call_generateIR,
                      Call_calculateLayout,
                      Call_renderToSVG (preview_options (currentTheme p)
                                          (selection_for i (selectedScreen p)))]"
    and "lastIR (updatePreview h content p) = Some i"
    and "lastLayout (updatePreview h content p) = Some layout"
    and "availableScreens (updatePreview h content p) = screen_names i"
    and "html (updatePreview h content p) =
           (case renderToSVG e i layout
                   (preview_options (currentTheme p) (selection_for i (selectedScreen p))) of
              Inl msg \<Rightarrow> ErrorPage msg
            | Inr JsOther \<Rightarrow> ErrorPage ''SVG renderer returned invalid output''
            | Inr (JsString svg) \<Rightarrow>
                if svg = [] then ErrorPage ''SVG renderer returned invalid output''
                else SvgPage (ensure_dimensions svg) (screen_names i)
                       (selection_for i (selectedScreen p)) (currentTheme p))"
proof -
  let ?p0 = "(begin_pass h content p)\<lparr>coreModule := Some (Exports e)\<rparr>"
  have same: "selectedScreen ?p0 = selectedScreen p" "currentTheme ?p0 = currentTheme p"
    by simp_all
  note run = updatePreview_loaded [OF assms(1), of content]
  show "trace (updatePreview h content p) =
           trace p @ [Call_updatePreview content, Call_parseWireDSL content, Call_generateIR,
                      Call_calculateLayout,
                      Call_renderToSVG (preview_options (currentTheme p)
                                          (selection_for i (selectedScreen p)))]"
    and "lastIR (updatePreview h content p) = Some i"
    and "lastLayout (updatePreview h content p) = Some layout"
    and "availableScreens (updatePreview h content p) = screen_names i"
    by (simp_all add: run render_pass_until_render [OF assms(2,3,4)])
  show "html (updatePreview h content p) =
           (case renderToSVG e i layout
                   (preview_options (currentTheme p) (selection_for i (selectedScreen p))) of
              Inl msg \<Rightarrow> ErrorPage msg
            | Inr JsOther \<Rightarrow> ErrorPage ''SVG renderer returned invalid output''
            | Inr (JsString svg) \<Rightarrow>
                if svg = [] then ErrorPage ''SVG renderer returned invalid output''
                else SvgPage (ensure_dimensions svg) (screen_names i)
                       (selection_for i (selectedScreen p)) (currentTheme p))"
    unfolding run
    by (rule render_pass_render_result [OF assms(2,3,4), of ?p0, unfolded same])
qed


lemma lastContent_updatePreview [simp]: "lastContent (updatePreview h content p) = content"
  by (simp add: updatePreview_def Let_def split: option.split sum.split)

lemma coreModule_updatePreview:
  "module_of h p = Inr m \<Longrightarrow> coreModule (updatePreview h content p) = Some m"
  by (cases "coreModule p") (simp_all add: updatePreview_def module_of_def Let_def)

text \<open>Facts about the reference session.\<close>

lemma module_of_demo_session: "module_of demo_host demo_session = Inr (Exports demo_preview)"
proof -
  have "module_of demo_host (initial_panel dark) = Inr (Exports demo_preview)"
    by (simp add: module_of_def initial_panel_def demo_host_def)
  then have "coreModule demo_session = Some (Exports demo_preview)"
    unfolding demo_session_def by (rule coreModule_updatePreview)
  then show ?thesis
    by (simp add: module_of_def)
qed


lemma demo_parse_ok:
  "parseWireDSL demo_preview ''Login,Dashboard'' = Inr [''Login'', ''Dashboard'']"
  "parseWireDSL demo_preview ''Home,Crash'' = Inr [''Home'', ''Crash'']"
  "parseWireDSL demo_preview ''Home,Overflow'' = Inr [''Home'', ''Overflow'']"
  "parseWireDSL demo_preview ''Home'' = Inr [''Home'']"
  "parseWireDSL demo_preview ''!'' = Inl ''Parse error''"
  by (simp_all add: demo_preview_def starts_with_def)

lemma demo_generateIR: "generateIR demo_preview ast = Inr (demo_ir ast)"
  by (simp add: demo_preview_def)

lemma screen_names_demo_ir:
  "screen_names (demo_ir [''Login'', ''Dashboard'']) = [''Login'', ''Dashboard'']"
  "screen_names (demo_ir [''Home'', ''Crash'']) = [''Home'', ''Crash'']"
  "screen_names (demo_ir [''Home'', ''Overflow'']) = [''Home'', ''Overflow'']"
  "screen_names (demo_ir [''Home'']) = [''Home'']"
  by (simp_all add: screen_names_def demo_ir_def)

lemma demo_calculateLayout:
  "calculateLayout demo_preview (demo_ir [''Login'', ''Dashboard'']) = Inr [''Login'', ''Dashboard'']"
  "calculateLayout demo_preview (demo_ir [''Home'', ''Crash'']) = Inr [''Home'', ''Crash'']"
  "calculateLayout demo_preview (demo_ir [''Home'', ''Overflow'']) = Inl ''Layout failed''"
  "calculateLayout demo_preview (demo_ir [''Home'']) = Inr [''Home'']"
  by (simp_all add: demo_preview_def screen_names_demo_ir)

lemma demo_renderToSVG:
  "renderToSVG demo_preview (demo_ir [''Home'', ''Crash'']) l opts = Inl ''Render failed''"
  "renderToSVG demo_preview (demo_ir [''Login'', ''Dashboard'']) l opts =
     Inr (JsString (''<svg>'' @ screenName opts @ ''</svg>''))"
  by (simp_all add: demo_preview_def screen_names_demo_ir)

subsection \<open>The debounced render\<close>

lemma update_same_debounceTimer: "debounceTimer r = v \<Longrightarrow> r\<lparr>debounceTimer := v\<rparr> = r"
  by (cases r) auto

text \<open>
  Changes that each arrive before the pending timeout is due only replace that timeout.
\<close>

lemma edit_events_pending:
  assumes "debounceTimer q = Some (t0 + 300, c0)" and "within_debounce ((t0, c0) # es)"
  shows "edit_events h es q =
           q\<lparr>debounceTimer := Some (fst (last ((t0, c0) # es)) + 300, snd (last ((t0, c0) # es)))\<rparr>"
  using assms
proof (induction es arbitrary: q t0 c0)
  case Nil
  then show ?case
    by (simp add: update_same_debounceTimer)
next
  case (Cons e es)
  obtain t c where e: "e = (t, c)"
    by (cases e)
  from Cons.prems(2) have nofire: "\<not> t0 + 300 \<le> t" and rest: "within_debounce ((t, c) # es)"
    by (simp_all add: e)
  from Cons.prems(1) nofire have same: "run_timers h t q = q"
    by (simp add: run_timers_def)
  let ?q = "q\<lparr>debounceTimer := Some (t + 300, c)\<rparr>"
  have timer: "debounceTimer ?q = Some (t + 300, c)"
    by simp
  from Cons.IH [OF timer rest] show ?case
    by (simp add: e same updatePreviewDebounced_def)
qed

lemma edit_events_within_debounce:
  assumes "es \<noteq> []" and "within_debounce es"
  shows "edit_events h es p =
           (run_timers h (fst (hd es)) p)\<lparr>debounceTimer := Some (fst (last es) + 300, snd (last es))\<rparr>"
proof -
  from assms(1) obtain t c es' where es: "es = (t, c) # es'"
    by (cases es) auto
  let ?q = "(run_timers h t p)\<lparr>debounceTimer := Some (t + 300, c)\<rparr>"
  have timer: "debounceTimer ?q = Some (t + 300, c)"
    by simp
  from edit_events_pending [OF timer, of es' h] assms(2) show ?thesis
    by (simp add: es updatePreviewDebounced_def)
qed

lemma run_timers_pending:
  "run_timers h T (q\<lparr>debounceTimer := Some (d, c)\<rparr>) =
     (if d \<le> T then updatePreview h c (q\<lparr>debounceTimer := None\<rparr>)
      else q\<lparr>debounceTimer := Some (d, c)\<rparr>)"
  by (simp add: run_timers_def timer_fires_def)

lemma debounceTimer_demo_session: "debounceTimer demo_session = None"
  by (simp add: demo_session_def initial_panel_def)

lemma run_timers_idle: "debounceTimer p = None \<Longrightarrow> run_timers h t p = p"
  by (simp add: run_timers_def)

text \<open>
  Claim C2. Take a sequence of document changes in which each change arrives less than
  300 ms after the one before, \<open>base\<close> being the panel when the first change arrives and
  \<open>final\<close> the panel at the time \<open>T\<close>. Before 300 ms have passed since the last change,
  \<open>final\<close> is \<open>base\<close> with the timeout pending: no pass has run, and the trace, the stored
  text, IR and layout and the page are those of \<open>base\<close>. From then on \<open>final\<close> is the result
  of exactly one render pass over \<open>base\<close>, with the text of the last change: when its
  stages succeed the calls made are one parse of that text, one IR generation, one layout
  and one render, the stored IR and layout are those of that text, and the page shows its
  render. No text of an earlier change is parsed, rendered or stored. (A timeout is taken
  to fire as soon as it is due.)
\<close>

theorem debounce_applies_last_edit_only:
  assumes "es \<noteq> []" and "within_debounce es"
    and "base = run_timers h (fst (hd es)) p"
    and "final = run_timers h T (edit_events h es p)"
    and "content = snd (last es)"
  shows "(T < fst (last es) + 300 \<longrightarrow>
            final = base\<lparr>debounceTimer := Some (fst (last es) + 300, content)\<rparr>
          \<and> trace final = trace base \<and> lastContent final = lastContent base
          \<and> lastIR final = lastIR base \<and> lastLayout final = lastLayout base
          \<and> html final = html base)
       \<and> (fst (last es) + 300 \<le> T \<longrightarrow>
            final = updatePreview h content (base\<lparr>debounceTimer := None\<rparr>)
          \<and> renders (trace final) = renders (trace base) @ [content]
          \<and> lastContent final = content \<and> debounceTimer final = None)
       \<and> (fst (last es) + 300 \<le> T \<longrightarrow> module_of h base = Inr (Exports e) \<longrightarrow>
          parseWireDSL e content = Inr ast \<longrightarrow> generateIR e ast = Inr i \<longrightarrow>
          calculateLayout e i = Inr layout \<longrightarrow>
            trace final =
              trace base @
                [Call_updatePreview content, Call_parseWireDSL content, Call_generateIR,
                 Call_calculateLayout,
                 Call_renderToSVG (preview_options (currentTheme base)
                                     (selection_for i (selectedScreen base)))]
          \<and> lastIR final = Some i \<and> lastLayout final = Some layout
          \<and> availableScreens final = screen_names i
          \<and> html final =
              (case renderToSVG e i layout
                      (preview_options (currentTheme base) (selection_for i (selectedScreen base))) of
                 Inl msg \<Rightarrow> ErrorPage msg
               | Inr JsOther \<Rightarrow> ErrorPage ''SVG renderer returned invalid output''
               | Inr (JsString svg) \<Rightarrow>
                   if svg = [] then ErrorPage ''SVG renderer returned invalid output''
                   else SvgPage (ensure_dimensions svg) (screen_names i)
                          (selection_for i (selectedScreen base)) (currentTheme base)))"
proof -
  note st = edit_events_within_debounce [OF assms(1,2), of h p]
  have early: "final = base\<lparr>debounceTimer := Some (fst (last es) + 300, content)\<rparr>"
    if "T < fst (last es) + 300"
    using that by (simp add: assms(3,4,5) st run_timers_pending)
  have late: "final = updatePreview h content (base\<lparr>debounceTimer := None\<rparr>)"
    if "fst (last es) + 300 \<le> T"
    using that by (simp add: assms(3,4,5) st run_timers_pending)
  have A: "final = base\<lparr>debounceTimer := Some (fst (last es) + 300, content)\<rparr>
          \<and> trace final = trace base \<and> lastContent final = lastContent base
          \<and> lastIR final = lastIR base \<and> lastLayout final = lastLayout base
          \<and> html final = html base"
    if "T < fst (last es) + 300"
    by (simp add: early [OF that])
  have B: "final = updatePreview h content (base\<lparr>debounceTimer := None\<rparr>)
          \<and> renders (trace final) = renders (trace base) @ [content]
          \<and> lastContent final = content \<and> debounceTimer final = None"
    if "fst (last es) + 300 \<le> T"
    by (simp add: late [OF that])
  have C: "trace final =
              trace base @
                [Call_updatePreview content, Call_parseWireDSL content, Call_generateIR,
                 Call_calculateLayout,
                 Call_renderToSVG (preview_options (currentTheme base)
                                     (selection_for i (selectedScreen base)))]
          \<and> lastIR final = Some i \<and> lastLayout final = Some layout
          \<and> availableScreens final = screen_names i
          \<and> html final =
              (case renderToSVG e i layout
                      (preview_options (currentTheme base) (selection_for i (selectedScreen base))) of
                 Inl msg \<Rightarrow> ErrorPage msg
               | Inr JsOther \<Rightarrow> ErrorPage ''SVG renderer returned invalid output''
               | Inr (JsString svg) \<Rightarrow>
                   if svg = [] then ErrorPage ''SVG renderer returned invalid output''
                   else SvgPage (ensure_dimensions svg) (screen_names i)
                          (selection_for i (selectedScreen base)) (currentTheme base))"
    if due: "fst (last es) + 300 \<le> T" and m: "module_of h base = Inr (Exports e)"
      and stages: "parseWireDSL e content = Inr ast" "generateIR e ast = Inr i"
        "calculateLayout e i = Inr layout"
  proof -
    from m have m': "module_of h (base\<lparr>debounceTimer := None\<rparr>) = Inr (Exports e)"
      by (simp add: module_of_def)
    have same: "selectedScreen (base\<lparr>debounceTimer := None\<rparr>) = selectedScreen base"
        "currentTheme (base\<lparr>debounceTimer := None\<rparr>) = currentTheme base"
        "trace (base\<lparr>debounceTimer := None\<rparr>) = trace base"
      by simp_all
    note pass = updatePreview_pass [OF m' stages, unfolded same, folded late [OF due]]
    from pass show ?thesis
      by (intro conjI)
  qed
  from A B C show ?thesis
    by blast
qed

theorem debounce_applies_last_edit_only_witness:
  "lastIR (run_timers demo_host 1400
      (edit_events demo_host [(1000, ''Home''), (1100, ''Home,Settings'')] demo_session))
     = Some (demo_ir [''Home'', ''Settings''])
   \<and> lastLayout (run_timers demo_host 1400
      (edit_events demo_host [(1000, ''Home''), (1100, ''Home,Settings'')] demo_session))
     = Some [''Home'', ''Settings'']
   \<and> trace (run_timers demo_host 1400
      (edit_events demo_host [(1000, ''Home''), (1100, ''Home,Settings'')] demo_session))
     = trace demo_session @
         [Call_updatePreview ''Home,Settings'', Call_parseWireDSL ''Home,Settings'',
          Call_generateIR, Call_calculateLayout,
          Call_renderToSVG (preview_options dark ''Login'')]
   \<and> html (run_timers demo_host 1400
      (edit_events demo_host [(1000, ''Home''), (1100, ''Home,Settings'')] demo_session))
     = SvgPage (ensure_dimensions ''<svg>Login</svg>'') [''Home'', ''Settings''] ''Login'' dark
   \<and> trace (run_timers demo_host 1399
      (edit_events demo_host [(1000, ''Home''), (1100, ''Home,Settings'')] demo_session))
     = trace demo_session
   \<and> lastIR (run_timers demo_host 1399
      (edit_events demo_host [(1000, ''Home''), (1100, ''Home,Settings'')] demo_session))
     = lastIR demo_session
   \<and> html (run_timers demo_host 1399
      (edit_events demo_host [(1000, ''Home''), (1100, ''Home,Settings'')] demo_session))
     = html demo_session"
proof -
  let ?es = "[(1000 :: nat, ''Home''), (1100, ''Home,Settings'')]"
  let ?i = "demo_ir [''Home'', ''Settings'']"
  have ne: "?es \<noteq> []"
    by simp
  have w: "within_debounce ?es"
    by simp
  have base: "demo_session = run_timers demo_host (fst (hd ?es)) demo_session"
    by (simp add: run_timers_idle [OF debounceTimer_demo_session])
  have c: "''Home,Settings'' = snd (last ?es)"
    by simp
  have due: "fst (last ?es) + 300 \<le> 1400" and early: "1399 < fst (last ?es) + 300"
    by simp_all
  have parse: "parseWireDSL demo_preview ''Home,Settings'' = Inr [''Home'', ''Settings'']"
    by (simp add: demo_preview_def starts_with_def)
  have names: "screen_names ?i = [''Home'', ''Settings'']"
    by (simp add: screen_names_def demo_ir_def)
  have lay: "calculateLayout demo_preview ?i = Inr [''Home'', ''Settings'']"
    by (simp add: demo_preview_def names)
  have ren: "renderToSVG demo_preview ?i [''Home'', ''Settings''] (preview_options dark ''Login'') =
      Inr (JsString ''<svg>Login</svg>'')"
    by (simp add: demo_preview_def names preview_options_def)
  have sel: "selectedScreen demo_session = ''Login''"
    by code_simp
  have th: "currentTheme demo_session = dark"
    by code_simp
  have pick: "selection_for ?i ''Login'' = ''Login''"
    by simp
  note late = debounce_applies_last_edit_only [OF ne w base refl c,
      where T = 1400 and e = demo_preview and ast = "[''Home'', ''Settings'']" and i = ?i
        and layout = "[''Home'', ''Settings'']",
      THEN conjunct2, THEN conjunct2, rule_format,
      OF due module_of_demo_session parse demo_generateIR lay,
      unfolded sel th pick names ren]
  note before = debounce_applies_last_edit_only [OF ne w base refl c,
      where T = 1399 and e = demo_preview and ast = "[''Home'', ''Settings'']" and i = ?i
        and layout = "[''Home'', ''Settings'']",
      THEN conjunct1, rule_format, OF early]
  from late have a: "lastIR (run_timers demo_host 1400 (edit_events demo_host ?es demo_session)) = Some ?i"
    and b: "lastLayout (run_timers demo_host 1400 (edit_events demo_host ?es demo_session))
       = Some [''Home'', ''Settings'']"
    and t: "trace (run_timers demo_host 1400 (edit_events demo_host ?es demo_session))
       = trace demo_session @
         [Call_updatePreview ''Home,Settings'', Call_parseWireDSL ''Home,Settings'',
          Call_generateIR, Call_calculateLayout,
          Call_renderToSVG (preview_options dark ''Login'')]"
    and v: "html (run_timers demo_host 1400 (edit_events demo_host ?es demo_session))
       = SvgPage (ensure_dimensions ''<svg>Login</svg>'') [''Home'', ''Settings''] ''Login'' dark"
    by simp_all
  from before have t0: "trace (run_timers demo_host 1399 (edit_events demo_host ?es demo_session))
       = trace demo_session"
    and a0: "lastIR (run_timers demo_host 1399 (edit_events demo_host ?es demo_session))
       = lastIR demo_session"
    and v0: "html (run_timers demo_host 1399 (edit_events demo_host ?es demo_session))
       = html demo_session"
    by blast+
  from a b t v t0 a0 v0 show ?thesis
    by (intro conjI)
qed

subsection \<open>Changes of theme and of the selected screen\<close>




subsection \<open>A render pass that fails\<close>

text \<open>
  Claim C6, as amended. In every render pass in which a stage fails, the webview shows the
  message of the failure. When loading the library, the parser or the IR generator fails,
  the stored IR and layout are the ones from before the pass. When the renderer fails
  (it throws, or returns something that is not a non-empty string), the stored IR and
  layout have both been replaced by the ones computed in this pass. When the layout
  computation fails, the stored layout is the one from before the pass.
\<close>

theorem failed_pass_cache:
  assumes "p' = updatePreview h content p"
    and "opts = preview_options (currentTheme p) (selection_for i (selectedScreen p))"
  shows "(module_of h p = Inl msg \<longrightarrow>
            lastIR p' = lastIR p \<and> lastLayout p' = lastLayout p
          \<and> html p' = ErrorPage (''Failed to load @wire-dsl/core: '' @ msg))
       \<and> (module_of h p = Inr MissingExports \<longrightarrow>
            lastIR p' = lastIR p \<and> lastLayout p' = lastLayout p
          \<and> html p' = ErrorPage ''Core module missing required exports'')
       \<and> (module_of h p = Inr (Exports e) \<longrightarrow> parseWireDSL e content = Inl msg \<longrightarrow>
            lastIR p' = lastIR p \<and> lastLayout p' = lastLayout p \<and> html p' = ErrorPage msg)
       \<and> (module_of h p = Inr (Exports e) \<longrightarrow> parseWireDSL e content = Inr ast \<longrightarrow>
          generateIR e ast = Inl msg \<longrightarrow>
            lastIR p' = lastIR p \<and> lastLayout p' = lastLayout p \<and> html p' = ErrorPage msg)
       \<and> (module_of h p = Inr (Exports e) \<longrightarrow> parseWireDSL e content = Inr ast \<longrightarrow>
          generateIR e ast = Inr i \<longrightarrow> calculateLayout e i = Inl msg \<longrightarrow>
            lastLayout p' = lastLayout p \<and> html p' = ErrorPage msg)
       \<and> (module_of h p = Inr (Exports e) \<longrightarrow> parseWireDSL e content = Inr ast \<longrightarrow>
          generateIR e ast = Inr i \<longrightarrow> calculateLayout e i = Inr layout \<longrightarrow>
          renderToSVG e i layout opts = Inl msg \<longrightarrow>
            lastIR p' = Some i \<and> lastLayout p' = Some layout \<and> html p' = ErrorPage msg)
       \<and> (module_of h p = Inr (Exports e) \<longrightarrow> parseWireDSL e content = Inr ast \<longrightarrow>
          generateIR e ast = Inr i \<longrightarrow> calculateLayout e i = Inr layout \<longrightarrow>
          renderToSVG e i layout opts = Inr JsOther
            \<or> renderToSVG e i layout opts = Inr (JsString []) \<longrightarrow>
            lastIR p' = Some i \<and> lastLayout p' = Some layout
          \<and> html p' = ErrorPage ''SVG renderer returned invalid output'')"
proof -
  have load: "lastIR p' = lastIR p \<and> lastLayout p' = lastLayout p
          \<and> html p' = ErrorPage (''Failed to load @wire-dsl/core: '' @ msg)"
    if "module_of h p = Inl msg"
    by (simp add: assms(1) updatePreview_load_fails [OF that])
  have missing: "lastIR p' = lastIR p \<and> lastLayout p' = lastLayout p
          \<and> html p' = ErrorPage ''Core module missing required exports''"
    if "module_of h p = Inr MissingExports"
    using updatePreview_missing_exports [OF that] by (simp add: assms(1))
  have parse: "lastIR p' = lastIR p \<and> lastLayout p' = lastLayout p \<and> html p' = ErrorPage msg"
    if "module_of h p = Inr (Exports e)" and "parseWireDSL e content = Inl msg"
    by (simp add: assms(1) updatePreview_loaded [OF that(1)] render_pass_parse_fails [OF that(2)])
  have gen: "lastIR p' = lastIR p \<and> lastLayout p' = lastLayout p \<and> html p' = ErrorPage msg"
    if "module_of h p = Inr (Exports e)" and "parseWireDSL e content = Inr ast"
      and "generateIR e ast = Inl msg"
    by (simp add: assms(1) updatePreview_loaded [OF that(1)] render_pass_ir_fails [OF that(2,3)])
  have lay: "lastLayout p' = lastLayout p \<and> html p' = ErrorPage msg"
    if "module_of h p = Inr (Exports e)" and "parseWireDSL e content = Inr ast"
      and "generateIR e ast = Inr i" and "calculateLayout e i = Inl msg"
    by (simp add: assms(1) updatePreview_loaded [OF that(1)]
        render_pass_layout_fails [OF that(2,3,4)])
  have thrown: "lastIR p' = Some i \<and> lastLayout p' = Some layout \<and> html p' = ErrorPage msg"
    if "module_of h p = Inr (Exports e)" and "parseWireDSL e content = Inr ast"
      and "generateIR e ast = Inr i" and "calculateLayout e i = Inr layout"
      and "renderToSVG e i layout opts = Inl msg"
    using that(5)
    by (simp add: assms updatePreview_loaded [OF that(1)]
        render_pass_until_render [OF that(2,3,4)] render_pass_render_result [OF that(2,3,4)])
  have invalid: "lastIR p' = Some i \<and> lastLayout p' = Some layout
          \<and> html p' = ErrorPage ''SVG renderer returned invalid output''"
    if "module_of h p = Inr (Exports e)" and "parseWireDSL e content = Inr ast"
      and "generateIR e ast = Inr i" and "calculateLayout e i = Inr layout"
      and "renderToSVG e i layout opts = Inr JsOther
            \<or> renderToSVG e i layout opts = Inr (JsString [])"
    using that(5)
    by (auto simp: assms updatePreview_loaded [OF that(1)]
        render_pass_until_render [OF that(2,3,4)] render_pass_render_result [OF that(2,3,4)])
  from load missing parse gen lay thrown invalid show ?thesis
    by blast
qed

theorem failed_pass_cache_witness:
  "lastIR (updatePreview demo_host ''!'' demo_session) = lastIR demo_session
   \<and> lastLayout (updatePreview demo_host ''!'' demo_session) = lastLayout demo_session
   \<and> html (updatePreview demo_host ''!'' demo_session) = ErrorPage ''Parse error''
   \<and> lastLayout (updatePreview demo_host ''Home,Overflow'' demo_session) = lastLayout demo_session
   \<and> html (updatePreview demo_host ''Home,Overflow'' demo_session) = ErrorPage ''Layout failed''
   \<and> lastIR (updatePreview demo_host ''Home,Crash'' demo_session) = Some (demo_ir [''Home'', ''Crash''])
   \<and> lastLayout (updatePreview demo_host ''Home,Crash'' demo_session) = Some [''Home'', ''Crash'']
   \<and> html (updatePreview demo_host ''Home,Crash'' demo_session) = ErrorPage ''Render failed''"
proof -
  note m = module_of_demo_session
  from failed_pass_cache [OF refl refl, where h = demo_host and p = demo_session
      and content = "''!''" and e = demo_preview and msg = "''Parse error''"]
    failed_pass_cache [OF refl refl, where h = demo_host and p = demo_session
      and content = "''Home,Overflow''" and e = demo_preview and msg = "''Layout failed''"
      and ast = "[''Home'', ''Overflow'']" and i = "demo_ir [''Home'', ''Overflow'']"]
    failed_pass_cache [OF refl refl, where h = demo_host and p = demo_session
      and content = "''Home,Crash''" and e = demo_preview and msg = "''Render failed''"
      and ast = "[''Home'', ''Crash'']" and i = "demo_ir [''Home'', ''Crash'']"
      and layout = "[''Home'', ''Crash'']"]
    m
  show ?thesis
    by (simp add: demo_parse_ok demo_generateIR demo_calculateLayout demo_renderToSVG)
qed

text \<open>
  The claim C6 as stated (IR and layout left as they were by every failing pass) does not
  hold: a pass whose renderer throws leaves the new IR and the new layout in the panel.
\<close>

theorem failed_render_replaces_cache:
  "lastIR demo_session = Some (demo_ir [''Login'', ''Dashboard''])
   \<and> lastLayout demo_session = Some [''Login'', ''Dashboard'']
   \<and> html (updatePreview demo_host ''Home,Crash'' demo_session) = ErrorPage ''Render failed''
   \<and> lastIR (updatePreview demo_host ''Home,Crash'' demo_session) = Some (demo_ir [''Home'', ''Crash''])
   \<and> lastLayout (updatePreview demo_host ''Home,Crash'' demo_session) = Some [''Home'', ''Crash'']
   \<and> lastIR (updatePreview demo_host ''Home,Crash'' demo_session) \<noteq> lastIR demo_session
   \<and> lastLayout (updatePreview demo_host ''Home,Crash'' demo_session) \<noteq> lastLayout demo_session"
  by code_simp

text \<open>
  Beside the amended claim: a pass whose layout computation fails has already stored its
  IR, which then stands next to the layout of the earlier document.
\<close>

lemma failed_layout_pairs_new_ir_with_old_layout:
  "lastIR (updatePreview demo_host ''Home,Overflow'' demo_session) = Some (demo_ir [''Home'', ''Overflow''])
   \<and> lastLayout (updatePreview demo_host ''Home,Overflow'' demo_session) = Some [''Login'', ''Dashboard'']"
  by code_simp

subsection \<open>The selected screen\<close>

lemma render_pass_selection:
  assumes "parseWireDSL e content = Inr ast" and "generateIR e ast = Inr i"
  shows "selectedScreen (render_pass e content p) = selection_for i (selectedScreen p)"
    and "availableScreens (render_pass e content p) = screen_names i"
    and "lastIR (render_pass e content p) = Some i"
  using assms by (simp_all add: render_pass_def)

lemma exportAs_not_found:
  assumes "lastIR q = Some j" and "lastLayout q = Some layout" and "screens j = Some scs"
    and "selectedScreen q \<notin> set (map name scs)"
  shows "exportAs q = ShowErrorMessage ''Selected screen not found''"
proof -
  from assms(4) have "\<And>s. s \<in> set scs \<Longrightarrow> name s \<noteq> selectedScreen q"
    by force
  then have "find (\<lambda>s. name s = selectedScreen q) scs = None"
    by (auto simp: find_None_iff)
  with assms(1,2,3) show ?thesis
    by (simp add: exportAs_def)
qed

lemma updatePreview_selection:
  assumes "module_of h p = Inr (Exports e)" and "parseWireDSL e content = Inr ast"
    and "generateIR e ast = Inr i"
  shows "lastIR (updatePreview h content p) = Some i"
    and "availableScreens (updatePreview h content p) = screen_names i"
    and "selectedScreen (updatePreview h content p) = selection_for i (selectedScreen p)"
  by (simp_all add: updatePreview_loaded [OF assms(1)] render_pass_selection [OF assms(2,3)])

text \<open>
  Claim C7, as amended. A render pass never changes a selection that is not empty, also
  when the screens of the new IR do not include it; a pass that reaches the screen names
  sets an empty selection to the first name when there is one; a pass whose parse, IR
  generation and layout succeed calls the renderer with the unchanged selection as its
  screen name and shows the render under that selection; and an export from the panel
  whose selection names no screen of the stored IR shows "Selected screen not found".
\<close>

theorem selection_kept_or_initialised:
  "(selectedScreen p \<noteq> [] \<longrightarrow> selectedScreen (updatePreview h content p) = selectedScreen p)
   \<and> (module_of h p = Inr (Exports e) \<longrightarrow> parseWireDSL e content = Inr ast \<longrightarrow>
      generateIR e ast = Inr i \<longrightarrow>
        lastIR (updatePreview h content p) = Some i
      \<and> availableScreens (updatePreview h content p) = screen_names i
      \<and> selectedScreen (updatePreview h content p) =
          (if selectedScreen p = [] \<and> screen_names i \<noteq> [] then hd (screen_names i)
           else selectedScreen p))
   \<and> (selectedScreen p \<noteq> [] \<longrightarrow> module_of h p = Inr (Exports e) \<longrightarrow>
      parseWireDSL e content = Inr ast \<longrightarrow> generateIR e ast = Inr i \<longrightarrow>
      calculateLayout e i = Inr computed \<longrightarrow>
        trace (updatePreview h content p) =
          trace p @
            [Call_updatePreview content, Call_parseWireDSL content, Call_generateIR,
             Call_calculateLayout,
             Call_renderToSVG (preview_options (currentTheme p) (selectedScreen p))]
      \<and> html (updatePreview h content p) =
          (case renderToSVG e i computed (preview_options (currentTheme p) (selectedScreen p)) of
             Inl msg \<Rightarrow> ErrorPage msg
           | Inr JsOther \<Rightarrow> ErrorPage ''SVG renderer returned invalid output''
           | Inr (JsString svg) \<Rightarrow>
               if svg = [] then ErrorPage ''SVG renderer returned invalid output''
               else SvgPage (ensure_dimensions svg) (screen_names i) (selectedScreen p)
                      (currentTheme p)))
   \<and> (lastIR q = Some j \<longrightarrow> lastLayout q = Some layout \<longrightarrow> screens j = Some scs \<longrightarrow>
      selectedScreen q \<notin> set (map name scs) \<longrightarrow>
        exportAs q = ShowErrorMessage ''Selected screen not found'')"
proof (intro conjI impI)
  assume "selectedScreen p \<noteq> []"
  then show "selectedScreen (updatePreview h content p) = selectedScreen p"
    by (rule selectedScreen_updatePreview)
next
  assume sel: "selectedScreen p \<noteq> []"
    and a: "module_of h p = Inr (Exports e)" "parseWireDSL e content = Inr ast"
      "generateIR e ast = Inr i" "calculateLayout e i = Inr computed"
  note keep = selection_for_kept [OF sel, of i]
  show "trace (updatePreview h content p) =
          trace p @
            [Call_updatePreview content, Call_parseWireDSL content, Call_generateIR,
             Call_calculateLayout,
             Call_renderToSVG (preview_options (currentTheme p) (selectedScreen p))]"
    by (rule updatePreview_pass(1) [OF a, unfolded keep])
  show "html (updatePreview h content p) =
          (case renderToSVG e i computed (preview_options (currentTheme p) (selectedScreen p)) of
             Inl msg \<Rightarrow> ErrorPage msg
           | Inr JsOther \<Rightarrow> ErrorPage ''SVG renderer returned invalid output''
           | Inr (JsString svg) \<Rightarrow>
               if svg = [] then ErrorPage ''SVG renderer returned invalid output''
               else SvgPage (ensure_dimensions svg) (screen_names i) (selectedScreen p)
                      (currentTheme p))"
    by (rule updatePreview_pass(5) [OF a, unfolded keep])
next
  assume a: "module_of h p = Inr (Exports e)" "parseWireDSL e content = Inr ast"
    "generateIR e ast = Inr i"
  show "lastIR (updatePreview h content p) = Some i"
    by (rule updatePreview_selection(1) [OF a])
  show "availableScreens (updatePreview h content p) = screen_names i"
    by (rule updatePreview_selection(2) [OF a])
  show "selectedScreen (updatePreview h content p) =
          (if selectedScreen p = [] \<and> screen_names i \<noteq> [] then hd (screen_names i)
           else selectedScreen p)"
    unfolding updatePreview_selection(3) [OF a] selection_for_def ..
next
  assume "lastIR q = Some j" "lastLayout q = Some layout" "screens j = Some scs"
    "selectedScreen q \<notin> set (map name scs)"
  then show "exportAs q = ShowErrorMessage ''Selected screen not found''"
    by (rule exportAs_not_found)
qed

theorem selection_kept_or_initialised_witness:
  "selectedScreen (updatePreview demo_host ''Home'' demo_session) = ''Login''
   \<and> selectedScreen (updatePreview demo_host ''Login,Dashboard''
        (initial_panel dark :: (string list, string list) panel)) = ''Login''
   \<and> trace (updatePreview demo_host ''Home'' demo_session) =
       trace demo_session @
         [Call_updatePreview ''Home'', Call_parseWireDSL ''Home'', Call_generateIR,
          Call_calculateLayout, Call_renderToSVG (preview_options dark ''Login'')]
   \<and> html (updatePreview demo_host ''Home'' demo_session) =
       SvgPage (ensure_dimensions ''<svg>Login</svg>'') [''Home''] ''Login'' dark
   \<and> exportAs (updatePreview demo_host ''Home'' demo_session) =
       ShowErrorMessage ''Selected screen not found''"
proof -
  let ?q = "updatePreview demo_host ''Home'' demo_session"
  let ?p0 = "initial_panel dark :: (string list, string list) panel"
  have sel: "selectedScreen demo_session = ''Login''"
    by code_simp
  have m: "module_of demo_host ?p0 = Inr (Exports demo_preview)"
    by (simp add: module_of_def initial_panel_def demo_host_def)
  have s0: "selectedScreen ?p0 = []"
    by (simp add: initial_panel_def)
  have ir: "lastIR ?q = Some (demo_ir [''Home''])"
    by code_simp
  have lay: "lastLayout ?q = Some [''Home'']"
    by code_simp
  have scs: "screens (demo_ir [''Home'']) = Some [\<lparr>name = ''Home'', viewport = None\<rparr>]"
    by (simp add: demo_ir_def)
  note inst1 = selection_kept_or_initialised
      [where p = demo_session and h = demo_host and content = "''Home''"
        and e = demo_preview and ast = "[''Home'']" and i = "demo_ir [''Home'']"
        and q = ?q and j = "demo_ir [''Home'']" and computed = "[''Home'']"
        and layout = "[''Home'']" and scs = "[\<lparr>name = ''Home'', viewport = None\<rparr>]"]
  note inst2 = selection_kept_or_initialised
      [where p = ?p0 and h = demo_host and content = "''Login,Dashboard''"
        and e = demo_preview and ast = "[''Login'', ''Dashboard'']"
        and i = "demo_ir [''Login'', ''Dashboard'']"
        and q = ?q and j = "demo_ir [''Home'']"
        and layout = "[''Home'']" and scs = "[\<lparr>name = ''Home'', viewport = None\<rparr>]"]
  from inst1 sel have kept: "selectedScreen ?q = ''Login''"
    by simp
  from inst2 m s0 have init: "selectedScreen (updatePreview demo_host ''Login,Dashboard'' ?p0) = ''Login''"
    by (simp add: demo_parse_ok demo_generateIR screen_names_demo_ir)
  from inst1 ir lay scs kept have gone: "exportAs ?q = ShowErrorMessage ''Selected screen not found''"
    by simp
  have th: "currentTheme demo_session = dark"
    by code_simp
  have ne: "selectedScreen demo_session \<noteq> []"
    by (simp add: sel)
  have ren: "renderToSVG demo_preview (demo_ir [''Home'']) [''Home''] (preview_options dark ''Login'') =
      Inr (JsString ''<svg>Login</svg>'')"
    by (simp add: demo_preview_def screen_names_demo_ir preview_options_def)
  note passed = inst1 [THEN conjunct2, THEN conjunct2, THEN conjunct1, rule_format,
      OF ne module_of_demo_session demo_parse_ok(4) demo_generateIR demo_calculateLayout(4),
      unfolded sel th screen_names_demo_ir ren]
  from passed have tr: "trace ?q =
       trace demo_session @
         [Call_updatePreview ''Home'', Call_parseWireDSL ''Home'', Call_generateIR,
          Call_calculateLayout, Call_renderToSVG (preview_options dark ''Login'')]"
    and page: "html ?q = SvgPage (ensure_dimensions ''<svg>Login</svg>'') [''Home''] ''Login'' dark"
    by simp_all
  from kept init tr page gone show ?thesis
    by (intro conjI)
qed

text \<open>
  The claim C7 as stated (a selection that is not empty names a screen of the current IR;
  a vanished selection falls back to the first screen) does not hold: after the document
  with the screens Login and Dashboard is replaced by one with the screen Home only, the
  selection is still Login.
\<close>

theorem stale_selection_after_reparse:
  "selectedScreen demo_session = ''Login''
   \<and> availableScreens demo_session = [''Login'', ''Dashboard'']
   \<and> lastIR (updatePreview demo_host ''Home'' demo_session) = Some (demo_ir [''Home''])
   \<and> availableScreens (updatePreview demo_host ''Home'' demo_session) = [''Home'']
   \<and> selectedScreen (updatePreview demo_host ''Home'' demo_session) = ''Login''
   \<and> selectedScreen (updatePreview demo_host ''Home'' demo_session) \<noteq> []
   \<and> selectedScreen (updatePreview demo_host ''Home'' demo_session)
        \<notin> set (availableScreens (updatePreview demo_host ''Home'' demo_session))"
  by code_simp

subsection \<open>Explicit width and height of the markup shown\<close>

text \<open>
  Claim C9. The source means to ensure that the markup shown has an explicit width and
  height, and tests for them with \<^verbatim>\<open>svg.includes('width=')\<close> and
  \<^verbatim>\<open>svg.includes('height=')\<close>. On the sample markup, whose root element has a
  \<^verbatim>\<open>viewBox\<close> only and whose child element has both attributes, the test finds the
  child's attributes, nothing is injected, and the page shows markup whose root element
  declares neither width nor height.
\<close>

theorem ensure_dimensions_misses_root_element:
  "str_includes viewbox_svg ''width='' \<and> str_includes viewbox_svg ''height=''
   \<and> ensure_dimensions viewbox_svg = viewbox_svg
   \<and> html (updatePreview viewbox_host ''Login'' (initial_panel dark)) =
       SvgPage viewbox_svg [''Login''] ''Login'' dark
   \<and> match_svg_tag [] viewbox_svg =
       Some ([], '' viewBox='' @ [dq] @ ''0 0 10 10'' @ [dq],
             ''<rect width='' @ [dq] @ ''5'' @ [dq] @ '' height='' @ [dq] @ ''5'' @ [dq] @ ''/></svg>'')
   \<and> \<not> str_includes ('' viewBox='' @ [dq] @ ''0 0 10 10'' @ [dq]) ''width=''
   \<and> \<not> str_includes ('' viewBox='' @ [dq] @ ''0 0 10 10'' @ [dq]) ''height=''"
  by code_simp

theorem ensure_dimensions_misses_root_element_witness:
  "ensure_dimensions viewbox_svg = viewbox_svg
   \<and> html (updatePreview viewbox_host ''Login'' (initial_panel dark)) =
       SvgPage viewbox_svg [''Login''] ''Login'' dark"
  using ensure_dimensions_misses_root_element by (intro conjI) (elim conjE, assumption)+

text \<open>Where neither text occurs in the markup, the first \<^verbatim>\<open>svg\<close> tag receives both attributes.\<close>

lemma ensure_dimensions_injects:
  "ensure_dimensions ''<svg viewBox=1><g/></svg>'' =
     ''<svg viewBox=1 width='' @ [dq] @ ''1300'' @ [dq] @ '' height='' @ [dq] @ ''700'' @ [dq]
       @ ''><g/></svg>''"
  by code_simp

subsection \<open>Export from the panel\<close>







end
